theory Spec2Isabelle
  imports Main
begin

section \<open>JavaScript values\<close>

text \<open>
  The bodies exchanged with the server are JSON. A parsed body is a \<open>json\<close> value; the
  JavaScript value \<open>undefined\<close>, which is what reading a missing property gives, is
  \<open>None\<close> of \<open>json option\<close>. An object lists its own properties in the order
  JavaScript enumerates them (the order of \<open>Object.keys\<close>). Numbers are the integers
  whose decimal expansion is what \<open>String\<close> prints.

  A \<open>string\<close> is the list of the code units of the JavaScript string; the accented
  letters of the French messages are single code units below 256
  (\<open>CHR 0xE9\<close> is e acute, \<open>CHR 0xE0\<close> a grave, \<open>CHR 0xE8\<close> e grave).
\<close>

datatype json =
    JNull
  | JBool bool
  | JNum int
  | JStr string
  | JArr "json list"
  | JObj "(string \<times> json) list"

text \<open>Truthiness, as \<open>if (v)\<close>, \<open>!v\<close> and \<open>a || b\<close> test it.\<close>

fun truthy :: "json option \<Rightarrow> bool" where
  "truthy None = False"
| "truthy (Some JNull) = False"
| "truthy (Some (JBool b)) = b"
| "truthy (Some (JNum n)) = (n \<noteq> 0)"
| "truthy (Some (JStr s)) = (s \<noteq> [])"
| "truthy (Some (JArr xs)) = True"
| "truthy (Some (JObj kvs)) = True"

text \<open>\<open>a || b\<close> where \<open>b\<close> is a value: \<open>a\<close> when it is truthy, \<open>b\<close> otherwise.\<close>

definition or_else :: "json option \<Rightarrow> json \<Rightarrow> json" where
  "or_else a b = (case a of None \<Rightarrow> b | Some v \<Rightarrow> if truthy (Some v) then v else b)"

text \<open>
  \<open>v.key\<close> on a value that is neither \<open>null\<close> nor \<open>undefined\<close>. The keys the
  code reads (\<open>access_token\<close>, \<open>detail\<close>, \<open>msg\<close>) are no properties of a string, a
  number, a boolean or an array, so only an object can have them.
\<close>

fun get_prop :: "json \<Rightarrow> string \<Rightarrow> json option" where
  "get_prop (JObj kvs) k = map_of kvs k"
| "get_prop v k = None"

text \<open>\<open>v?.key\<close>: \<open>undefined\<close> on \<open>null\<close>, the property otherwise.\<close>

definition opt_chain :: "json \<Rightarrow> string \<Rightarrow> json option" where
  "opt_chain v k = (if v = JNull then None else get_prop v k)"

text \<open>\<open>Object.values(v)\<close> for a value that is neither \<open>null\<close> nor \<open>undefined\<close>.\<close>

fun object_values :: "json \<Rightarrow> json list" where
  "object_values (JObj kvs) = map snd kvs"
| "object_values (JArr xs) = xs"
| "object_values (JStr s) = map (\<lambda>c. JStr [c]) s"
| "object_values v = []"

text \<open>\<open>xs[0]\<close> on an array: \<open>undefined\<close> when the array is empty.\<close>

fun first_elem :: "json list \<Rightarrow> json option" where
  "first_elem [] = None"
| "first_elem (x # xs) = Some x"

text \<open>\<open>String(v)\<close>, the conversion of \<open>localStorage.setItem\<close>, of a template literal
  and of \<open>new Error(v)\<close>.\<close>

definition digit_char :: "nat \<Rightarrow> char" where
  "digit_char d = char_of (48 + d)"

fun show_nat :: "nat \<Rightarrow> string" where
  "show_nat n = (if n < 10 then [digit_char n] else show_nat (n div 10) @ [digit_char (n mod 10)])"

definition show_int :: "int \<Rightarrow> string" where
  "show_int i = (if i < 0 then CHR ''-'' # show_nat (nat (- i)) else show_nat (nat i))"

fun join_comma :: "string list \<Rightarrow> string" where
  "join_comma [] = []"
| "join_comma [s] = s"
| "join_comma (s # t # ss) = s @ '','' @ join_comma (t # ss)"

fun js_string :: "json \<Rightarrow> string" where
  "js_string JNull = ''null''"
| "js_string (JBool b) = (if b then ''true'' else ''false'')"
| "js_string (JNum n) = show_int n"
| "js_string (JStr s) = s"
| "js_string (JArr xs) = join_comma (map (\<lambda>x. if x = JNull then [] else js_string x) xs)"
| "js_string (JObj kvs) = ''[object Object]''"

definition to_string :: "json option \<Rightarrow> string" where
  "to_string v = (case v of None \<Rightarrow> ''undefined'' | Some x \<Rightarrow> js_string x)"

section \<open>Requests, responses and errors\<close>

datatype payload = NoBody | FormBody "(string \<times> string) list" | JsonBody json | TextBody string

record request =
  verb :: string
  url :: string
  headers :: "(string \<times> string) list"
  body :: payload

record response =
  status :: nat
  data :: json

text \<open>What the transport gives for a request: an HTTP response, or nothing at all
  (the server cannot be reached).\<close>

datatype reply = Answer response | NoAnswer

type_synonym network = "request \<Rightarrow> reply"

text \<open>
  The errors a promise rejects with. \<open>HttpError r\<close> is the axios error of a response
  outside 2xx (\<open>error.response\<close> is \<open>r\<close>, \<open>error.request\<close> is set); \<open>NetworkError\<close>
  is the axios error of a request without response (\<open>error.request\<close> only);
  \<open>TypeError\<close> and \<open>Error m\<close> are plain JavaScript errors, with neither field.
\<close>

datatype js_error = HttpError response | NetworkError | TypeError | Error string

fun err_response :: "js_error \<Rightarrow> response option" where
  "err_response (HttpError r) = Some r"
| "err_response e = None"

fun err_request :: "js_error \<Rightarrow> bool" where
  "err_request (HttpError r) = True"
| "err_request NetworkError = True"
| "err_request e = False"

text \<open>\<open>error.response?.status\<close>\<close>

definition err_status :: "js_error \<Rightarrow> nat option" where
  "err_status e = map_option status (err_response e)"

text \<open>Setting one header of a configuration: \<open>headers[k] = v\<close>.\<close>

fun set_header :: "string \<Rightarrow> string \<Rightarrow> (string \<times> string) list \<Rightarrow> (string \<times> string) list" where
  "set_header k v [] = [(k, v)]"
| "set_header k v ((k', v') # hs) = (if k = k' then (k, v) # hs else (k', v') # set_header k v hs)"

text \<open>\<open>{...a, ...b}\<close> on header objects: the entries of \<open>b\<close> override those of \<open>a\<close>.\<close>

definition merge_headers :: "(string \<times> string) list \<Rightarrow> (string \<times> string) list \<Rightarrow> (string \<times> string) list" where
  "merge_headers a b = fold (\<lambda>(k, v). set_header k v) b a"

definition header :: "string \<Rightarrow> request \<Rightarrow> string option" where
  "header k r = map_of (headers r) k"

section \<open>The client\<close>

datatype toast_kind = ToastError | ToastSuccess

text \<open>The effects of the client that the outside can see, in the order they happen.\<close>

datatype event =
    Sent request
  | SetItem string
  | RemoveItem
  | Navigate string
  | Toast toast_kind json
  | SetUser json

text \<open>
  \<open>access_token\<close> is the entry of \<open>localStorage\<close> under the key \<open>access_token\<close>
  (\<open>None\<close>: \<open>getItem\<close> gives \<open>null\<close>); \<open>user\<close> and \<open>loading\<close> are the state of
  \<open>AuthProvider\<close> (\<open>JNull\<close> is \<open>null\<close>); \<open>href\<close> is \<open>window.location.href\<close>.
\<close>

record client =
  access_token :: "string option"
  user :: json
  loading :: bool
  href :: string
  trace :: "event list"

definition emit :: "event \<Rightarrow> client \<Rightarrow> client" where
  "emit e s = s\<lparr>trace := trace s @ [e]\<rparr>"

definition setItem :: "string \<Rightarrow> client \<Rightarrow> client" where
  "setItem v s = emit (SetItem v) (s\<lparr>access_token := Some v\<rparr>)"

definition removeItem :: "client \<Rightarrow> client" where
  "removeItem s = emit RemoveItem (s\<lparr>access_token := None\<rparr>)"

definition set_href :: "string \<Rightarrow> client \<Rightarrow> client" where
  "set_href u s = emit (Navigate u) (s\<lparr>href := u\<rparr>)"

definition toast_error :: "json \<Rightarrow> client \<Rightarrow> client" where
  "toast_error m s = emit (Toast ToastError m) s"

definition toast_success :: "string \<Rightarrow> client \<Rightarrow> client" where
  "toast_success m s = emit (Toast ToastSuccess (JStr m)) s"

definition setUser :: "json \<Rightarrow> client \<Rightarrow> client" where
  "setUser u s = emit (SetUser u) (s\<lparr>user := u\<rparr>)"

definition setLoading :: "bool \<Rightarrow> client \<Rightarrow> client" where
  "setLoading b s = s\<lparr>loading := b\<rparr>"

section \<open>services/api.js: the axios instance and its interceptors\<close>

definition msg_server_error :: string where
  "msg_server_error = ''Erreur serveur. Veuillez r'' @ [CHR 0xE9] @ ''essayer plus tard.''"

definition msg_connection_problem :: string where
  "msg_connection_problem = ''Probl'' @ [CHR 0xE8] @ ''me de connexion au serveur.''"

text \<open>The request interceptor: the bearer header is set when the stored token is truthy.\<close>

definition request_interceptor :: "client \<Rightarrow> request \<Rightarrow> request" where
  "request_interceptor s config =
     (case access_token s of
        None \<Rightarrow> config
      | Some token \<Rightarrow>
          if token \<noteq> [] then config\<lparr>headers := set_header ''Authorization'' (''Bearer '' @ token) (headers config)\<rparr>
          else config)"

text \<open>The response interceptor: a response passes; an error has its side effect and is
  rejected again.\<close>

definition response_fulfilled :: "response \<Rightarrow> client \<Rightarrow> (js_error + response) \<times> client" where
  "response_fulfilled r s = (Inr r, s)"

definition response_rejected :: "js_error \<Rightarrow> client \<Rightarrow> (js_error + response) \<times> client" where
  "response_rejected e s =
     (Inl e,
      if err_status e = Some 401 then set_href ''/login'' (removeItem s)
      else if (case err_status e of None \<Rightarrow> False | Some n \<Rightarrow> n \<ge> 500) then toast_error (JStr msg_server_error) s
      else if err_response e = None then toast_error (JStr msg_connection_problem) s
      else s)"

text \<open>
  A call on the axios instance: the request interceptor, the transport, the default
  \<open>validateStatus\<close> of axios (2xx resolves, anything else rejects), the response
  interceptor.
\<close>

definition api_request :: "network \<Rightarrow> request \<Rightarrow> client \<Rightarrow> (js_error + response) \<times> client" where
  "api_request net config s =
     (let sent = request_interceptor s config;
          s1 = emit (Sent sent) s
      in case net sent of
           NoAnswer \<Rightarrow> response_rejected NetworkError s1
         | Answer r \<Rightarrow>
             if 200 \<le> status r \<and> status r < 300 then response_fulfilled r s1
             else response_rejected (HttpError r) s1)"

text \<open>
  \<open>api.js\<close> is in the sources in two versions with the same interceptors, word for
  word; the later one, which has \<open>userAPI.updateProfile\<close>, is the one modelled. Its
  instance sets no default header. URLs are relative to the base URL of the instance.
\<close>

definition api_get :: "network \<Rightarrow> string \<Rightarrow> client \<Rightarrow> (js_error + response) \<times> client" where
  "api_get net u s = api_request net \<lparr>verb = ''GET'', url = u, headers = [], body = NoBody\<rparr> s"

definition api_post :: "network \<Rightarrow> string \<Rightarrow> payload \<Rightarrow> (string \<times> string) list \<Rightarrow> client \<Rightarrow> (js_error + response) \<times> client" where
  "api_post net u d hs s = api_request net \<lparr>verb = ''POST'', url = u, headers = hs, body = d\<rparr> s"

definition api_put :: "network \<Rightarrow> string \<Rightarrow> payload \<Rightarrow> (string \<times> string) list \<Rightarrow> client \<Rightarrow> (js_error + response) \<times> client" where
  "api_put net u d hs s = api_request net \<lparr>verb = ''PUT'', url = u, headers = hs, body = d\<rparr> s"

record userData =
  email :: string
  password :: string
  firstName :: "string option"
  lastName :: "string option"

text \<open>\<open>userData.firstName || null\<close>\<close>

definition or_null :: "string option \<Rightarrow> json" where
  "or_null v = (case v of None \<Rightarrow> JNull | Some x \<Rightarrow> if x \<noteq> [] then JStr x else JNull)"

text \<open>\<open>authAPI.login\<close> and \<open>authAPI.signup\<close> catch an error only to log it and throw
  it again.\<close>

definition authAPI_login :: "network \<Rightarrow> string \<Rightarrow> string \<Rightarrow> client \<Rightarrow> (js_error + response) \<times> client" where
  "authAPI_login net em pw s =
     api_post net ''/auth/login'' (FormBody [(''username'', em), (''password'', pw)])
       [(''Content-Type'', ''application/x-www-form-urlencoded'')] s"

definition authAPI_signup :: "network \<Rightarrow> userData \<Rightarrow> client \<Rightarrow> (js_error + response) \<times> client" where
  "authAPI_signup net ud s =
     api_post net ''/users/signup''
       (JsonBody (JObj [(''email'', JStr (email ud)), (''password'', JStr (password ud)),
                        (''first_name'', or_null (firstName ud)),
                        (''last_name'', or_null (lastName ud))]))
       [(''Content-Type'', ''application/json''), (''Accept'', ''application/json'')] s"

definition userAPI_me :: "network \<Rightarrow> client \<Rightarrow> (js_error + response) \<times> client" where
  "userAPI_me net s = api_get net ''/users/me'' s"

definition userAPI_updateProfile :: "network \<Rightarrow> json \<Rightarrow> client \<Rightarrow> (js_error + response) \<times> client" where
  "userAPI_updateProfile net d s =
     api_put net ''/users/me'' (JsonBody d) [(''Content-Type'', ''application/json'')] s"

text \<open>The configurations these four calls hand to the instance.\<close>

definition login_config :: "string \<Rightarrow> string \<Rightarrow> request" where
  "login_config em pw =
     \<lparr>verb = ''POST'', url = ''/auth/login'',
      headers = [(''Content-Type'', ''application/x-www-form-urlencoded'')],
      body = FormBody [(''username'', em), (''password'', pw)]\<rparr>"

definition signup_config :: "userData \<Rightarrow> request" where
  "signup_config ud =
     \<lparr>verb = ''POST'', url = ''/users/signup'',
      headers = [(''Content-Type'', ''application/json''), (''Accept'', ''application/json'')],
      body = JsonBody (JObj [(''email'', JStr (email ud)), (''password'', JStr (password ud)),
                             (''first_name'', or_null (firstName ud)),
                             (''last_name'', or_null (lastName ud))])\<rparr>"

definition me_config :: request where
  "me_config = \<lparr>verb = ''GET'', url = ''/users/me'', headers = [], body = NoBody\<rparr>"

definition updateProfile_config :: "json \<Rightarrow> request" where
  "updateProfile_config d =
     \<lparr>verb = ''PUT'', url = ''/users/me'',
      headers = [(''Content-Type'', ''application/json'')], body = JsonBody d\<rparr>"

section \<open>contexts/AuthContext.js: the session controller\<close>

definition msg_login_default :: string where
  "msg_login_default = ''Erreur de connexion''"

definition msg_bad_credentials :: string where
  "msg_bad_credentials = ''Email ou mot de passe incorrect''"

definition msg_auth_failed :: string where
  "msg_auth_failed = ''Authentification '' @ [CHR 0xE9] @ ''chou'' @ [CHR 0xE9] @ ''e''"

definition msg_login_server :: string where
  "msg_login_server = ''Erreur serveur, veuillez r'' @ [CHR 0xE9] @ ''essayer plus tard''"

definition msg_unreachable :: string where
  "msg_unreachable = ''Impossible de contacter le serveur''"

definition msg_login_ok :: string where
  "msg_login_ok = ''Connexion r'' @ [CHR 0xE9] @ ''ussie !''"

definition msg_signup_default :: string where
  "msg_signup_default = ''Erreur lors de l'' @ [CHR 0x27] @ ''inscription''"

definition detail_email_exists :: string where
  "detail_email_exists = ''A user with this email already exists''"

definition msg_email_exists :: string where
  "msg_email_exists = ''Un utilisateur avec cet email existe d'' @ [CHR 0xE9] @ ''j'' @ [CHR 0xE0]"

definition msg_invalid_data :: string where
  "msg_invalid_data = ''Donn'' @ [CHR 0xE9] @ ''es invalides''"

definition msg_bad_format :: string where
  "msg_bad_format = ''Format de donn'' @ [CHR 0xE9] @ ''es incorrect''"

definition msg_signup_connection :: string where
  "msg_signup_connection = ''Probl'' @ [CHR 0xE8] @ ''me de connexion au serveur''"

definition msg_signup_ok :: string where
  "msg_signup_ok = ''Compte cr'' @ [CHR 0xE9, CHR 0xE9] @ '' avec succ'' @ [CHR 0xE8] @ ''s !''"

definition msg_logout_ok :: string where
  "msg_logout_ok = ''D'' @ [CHR 0xE9] @ ''connexion r'' @ [CHR 0xE9] @ ''ussie''"

text \<open>
  What \<open>login\<close> and \<open>signup\<close> resolve with: \<open>{success: true, user}\<close>,
  \<open>{success: false, error}\<close>, and \<open>{success: false, error, statusCode}\<close>.
\<close>

datatype outcome = Success json | Failure json | SignupFailure json "nat option"

fun success :: "outcome \<Rightarrow> bool" where
  "success (Success u) = True"
| "success r = False"

definition checkAuth :: "network \<Rightarrow> client \<Rightarrow> client" where
  "checkAuth net s =
     (case access_token s of
        None \<Rightarrow> setLoading False s
      | Some token \<Rightarrow>
          if token \<noteq> [] then
            (case userAPI_me net s of
               (Inr resp, s1) \<Rightarrow> setLoading False (setUser (data resp) s1)
             | (Inl e, s1) \<Rightarrow> setLoading False (removeItem s1))
          else setLoading False s)"

text \<open>The \<open>catch\<close> block of \<open>login\<close>.\<close>

definition login_message :: "js_error \<Rightarrow> json" where
  "login_message e =
     (case err_response e of
        Some r \<Rightarrow>
          if status r = 400 then or_else (opt_chain (data r) ''detail'') (JStr msg_bad_credentials)
          else if status r = 401 then JStr msg_auth_failed
          else if status r \<ge> 500 then JStr msg_login_server
          else JStr msg_login_default
      | None \<Rightarrow>
          if err_request e then JStr msg_unreachable else JStr msg_login_default)"

definition login_catch :: "js_error \<Rightarrow> client \<Rightarrow> outcome \<times> client" where
  "login_catch e s = (Failure (login_message e), toast_error (login_message e) s)"

text \<open>
  \<open>login\<close>. Destructuring \<open>response.data\<close> throws a \<open>TypeError\<close> when the body is
  \<open>null\<close>, and gives \<open>undefined\<close> for \<open>access_token\<close> when the body has no such
  property; \<open>setItem\<close> stores the string of what it is given.
\<close>

definition login :: "network \<Rightarrow> string \<Rightarrow> string \<Rightarrow> client \<Rightarrow> outcome \<times> client" where
  "login net em pw s =
     (case authAPI_login net em pw s of
        (Inl e, s1) \<Rightarrow> login_catch e s1
      | (Inr resp, s1) \<Rightarrow>
          if data resp = JNull then login_catch TypeError s1
          else
            (let s2 = setItem (to_string (get_prop (data resp) ''access_token'')) s1
             in case userAPI_me net s2 of
                  (Inl e, s3) \<Rightarrow> login_catch e s3
                | (Inr userResponse, s3) \<Rightarrow>
                    (Success (data userResponse),
                     toast_success msg_login_ok (setUser (data userResponse) s3))))"

text \<open>The \<open>catch\<close> block of \<open>signup\<close>. Reading \<open>msg\<close> of a first error that is
  \<open>null\<close> throws inside the block, and \<open>signup\<close> rejects.\<close>

definition signup_fail :: "json \<Rightarrow> js_error \<Rightarrow> client \<Rightarrow> (js_error + outcome) \<times> client" where
  "signup_fail m e s = (Inr (SignupFailure m (err_status e)), toast_error m s)"

definition signup_catch :: "js_error \<Rightarrow> client \<Rightarrow> (js_error + outcome) \<times> client" where
  "signup_catch e s =
     (case err_response e of
        None \<Rightarrow> signup_fail (JStr msg_signup_default) e s
      | Some r \<Rightarrow>
          if status r = 400 then
            (if opt_chain (data r) ''detail'' = Some (JStr detail_email_exists)
             then signup_fail (JStr msg_email_exists) e s
             else signup_fail (or_else (opt_chain (data r) ''detail'') (JStr msg_invalid_data)) e s)
          else if status r = 422 then
            (case first_elem (object_values (or_else (opt_chain (data r) ''detail'') (JObj []))) of
               Some (JArr (e0 # es)) \<Rightarrow>
                 if e0 = JNull then (Inl TypeError, s)
                 else signup_fail (or_else (get_prop e0 ''msg'') (JStr msg_bad_format)) e s
             | _ \<Rightarrow> signup_fail (JStr msg_bad_format) e s)
          else if status r = 0 then signup_fail (JStr msg_signup_connection) e s
          else signup_fail (JStr msg_signup_default) e s)"

definition signup :: "network \<Rightarrow> userData \<Rightarrow> client \<Rightarrow> (js_error + outcome) \<times> client" where
  "signup net ud s =
     (case authAPI_signup net ud s of
        (Inl e, s1) \<Rightarrow> signup_catch e s1
      | (Inr resp, s1) \<Rightarrow>
          (case login net (email ud) (password ud) s1 of
             (loginResult, s2) \<Rightarrow>
               if success loginResult then (Inr (Success (data resp)), toast_success msg_signup_ok s2)
               else (Inr loginResult, s2)))"

definition logout :: "client \<Rightarrow> client" where
  "logout s = toast_success msg_logout_ok (setUser JNull (removeItem s))"

definition updateUser :: "json \<Rightarrow> client \<Rightarrow> client" where
  "updateUser updatedUser s = setUser updatedUser s"

section \<open>pages/Profile.js: saving the profile\<close>

definition msg_profile_ok :: string where
  "msg_profile_ok = ''Profil mis '' @ [CHR 0xE0] @ '' jour avec succ'' @ [CHR 0xE8] @ ''s !''"

definition msg_profile_error :: string where
  "msg_profile_error = ''Erreur lors de la mise '' @ [CHR 0xE0] @ '' jour du profil''"

text \<open>The state of the \<open>Profile\<close> component; \<open>saving\<close> is its own \<open>loading\<close>.\<close>

record profile =
  isEditing :: bool
  saving :: bool
  formData :: json

definition handleSave :: "network \<Rightarrow> profile \<Rightarrow> client \<Rightarrow> profile \<times> client" where
  "handleSave net p s =
     (case userAPI_updateProfile net (formData p) s of
        (Inr resp, s1) \<Rightarrow>
          (p\<lparr>isEditing := False, saving := False\<rparr>,
           toast_success msg_profile_ok (updateUser (data resp) s1))
      | (Inl e, s1) \<Rightarrow>
          (p\<lparr>saving := False\<rparr>, toast_error (JStr msg_profile_error) s1))"

section \<open>services/adminApi.js: the admin service\<close>

text \<open>The \<open>options\<close> argument of \<open>makeRequest\<close>; \<open>None\<close> is a property the caller
  has not given.\<close>

record options =
  opt_method :: "string option"
  opt_body :: "string option"
  opt_headers :: "(string \<times> string) list option"

definition no_options :: options where
  "no_options = \<lparr>opt_method = None, opt_body = None, opt_headers = None\<rparr>"

text \<open>
  The configuration handed to \<open>fetch\<close>: the template literal prints a \<open>null\<close> token
  as \<open>null\<close>, and the spread of \<open>options\<close> after \<open>headers\<close> lets a \<open>headers\<close> of the
  caller replace the merged ones.
\<close>

definition makeRequest_config :: "client \<Rightarrow> string \<Rightarrow> options \<Rightarrow> request" where
  "makeRequest_config s endpoint opts =
     (let token = (case access_token s of None \<Rightarrow> ''null'' | Some t \<Rightarrow> t);
          merged = merge_headers
                     [(''Content-Type'', ''application/json''), (''Authorization'', ''Bearer '' @ token)]
                     (case opt_headers opts of None \<Rightarrow> [] | Some h \<Rightarrow> h)
      in \<lparr>verb = (case opt_method opts of None \<Rightarrow> ''GET'' | Some m \<Rightarrow> m),
          url = ''/api/v1/admin'' @ endpoint,
          headers = (case opt_headers opts of None \<Rightarrow> merged | Some h \<Rightarrow> h),
          body = (case opt_body opts of None \<Rightarrow> NoBody | Some b \<Rightarrow> TextBody b)\<rparr>)"

text \<open>
  \<open>makeRequest\<close>: \<open>fetch\<close> resolves with every response and rejects with a
  \<open>TypeError\<close> when there is none; the body of the response is taken as the JSON it
  parses to.
\<close>

definition makeRequest :: "network \<Rightarrow> string \<Rightarrow> options \<Rightarrow> client \<Rightarrow> (js_error + json) \<times> client" where
  "makeRequest net endpoint opts s =
     (let config = makeRequest_config s endpoint opts;
          s1 = emit (Sent config) s
      in case net config of
           NoAnswer \<Rightarrow> (Inl TypeError, s1)
         | Answer r \<Rightarrow>
             if 200 \<le> status r \<and> status r < 300 then (Inr (data r), s1)
             else if data r = JNull then (Inl TypeError, s1)
             else (Inl (Error (js_string (or_else (get_prop (data r) ''detail'')
                                              (JStr (''HTTP '' @ show_nat (status r)))))), s1))"

section \<open>Reading a trace\<close>

text \<open>The requests that left the client, and the values written to the store, in order.\<close>

fun requests :: "event list \<Rightarrow> request list" where
  "requests [] = []"
| "requests (Sent r # evs) = r # requests evs"
| "requests (e # evs) = requests evs"

fun stored :: "event list \<Rightarrow> string list" where
  "stored [] = []"
| "stored (SetItem v # evs) = v # stored evs"
| "stored (e # evs) = stored evs"

text \<open>The requests of the session controller as they leave the client: the
  configuration of the endpoint after the request interceptor.\<close>

definition login_request :: "client \<Rightarrow> string \<Rightarrow> string \<Rightarrow> request" where
  "login_request s em pw = request_interceptor s (login_config em pw)"

definition signup_request :: "client \<Rightarrow> userData \<Rightarrow> request" where
  "signup_request s ud = request_interceptor s (signup_config ud)"

definition me_request :: "client \<Rightarrow> request" where
  "me_request s = request_interceptor s me_config"

definition updateProfile_request :: "client \<Rightarrow> json \<Rightarrow> request" where
  "updateProfile_request s d = request_interceptor s (updateProfile_config d)"

text \<open>
  The event loop runs one handler at a time: when several calls are in flight, their
  rejections reach the response interceptor one after the other, in some order.
\<close>

definition reject_all :: "js_error list \<Rightarrow> client \<Rightarrow> client" where
  "reject_all es s = fold (\<lambda>e s'. snd (response_rejected e s')) es s"

text \<open>
  What the axios instance does with the reply to a request that has left: the default
  \<open>validateStatus\<close> and the response interceptor, as in \<open>api_request\<close>.
\<close>

definition settle :: "reply \<Rightarrow> client \<Rightarrow> (js_error + response) \<times> client" where
  "settle rep s =
     (case rep of
        NoAnswer \<Rightarrow> response_rejected NetworkError s
      | Answer r \<Rightarrow>
          if 200 \<le> status r \<and> status r < 300 then response_fulfilled r s
          else response_rejected (HttpError r) s)"

text \<open>
  Several calls on the axios instance in flight together: every request leaves, through
  the request interceptor, before the first reply is handled; then the replies are
  handled one after the other.
\<close>

definition concurrent_calls :: "network \<Rightarrow> request list \<Rightarrow> client \<Rightarrow> client" where
  "concurrent_calls net configs s =
     (let sent = map (request_interceptor s) configs
      in fold (\<lambda>r s'. snd (settle (net r) s')) sent (fold (\<lambda>r s'. emit (Sent r) s') sent s))"

text \<open>The values written to the cached identity, in order.\<close>

fun user_writes :: "event list \<Rightarrow> json list" where
  "user_writes [] = []"
| "user_writes (SetUser u # evs) = u # user_writes evs"
| "user_writes (e # evs) = user_writes evs"

section \<open>Example runs\<close>

definition admin_identity :: json where
  "admin_identity = JObj [(''email'', JStr ''admin@example.com''), (''is_admin'', JBool True)]"

text \<open>A server with one account, whose token is \<open>abc\<close>.\<close>

definition admin_server :: network where
  "admin_server req =
     (if url req = ''/auth/login'' then
        Answer \<lparr>status = 200, data = JObj [(''access_token'', JStr ''abc'')]\<rparr>
      else if url req = ''/users/me'' \<and> header ''Authorization'' req = Some ''Bearer abc'' then
        Answer \<lparr>status = 200, data = admin_identity\<rparr>
      else Answer \<lparr>status = 401, data = JObj [(''detail'', JStr ''Not authenticated'')]\<rparr>)"

definition offline :: network where
  "offline req = NoAnswer"

definition wrong_password_server :: network where
  "wrong_password_server req =
     Answer \<lparr>status = 400, data = JObj [(''detail'', JStr ''Incorrect email or password'')]\<rparr>"

definition example_client :: client where
  "example_client =
     \<lparr>access_token = Some ''abc'', user = JObj [(''email'', JStr ''admin@example.com'')],
      loading = False, href = ''/dashboard'', trace = []\<rparr>"

definition anonymous_client :: client where
  "anonymous_client =
     \<lparr>access_token = None, user = JNull, loading = False, href = ''/login'', trace = []\<rparr>"


definition outage_server :: network where
  "outage_server req =
     Answer \<lparr>status = 503, data = JObj [(''detail'', JStr ''Service Unavailable'')]\<rparr>"

definition new_user :: userData where
  "new_user = \<lparr>email = ''x@example.com'', password = ''secret'', firstName = Some ''X'',
                lastName = None\<rparr>"

definition validation_server :: network where
  "validation_server req =
     Answer \<lparr>status = 422,
             data = JObj [(''detail'',
                      JObj [(''password'', JArr [JObj [(''msg'', JStr ''Password too short'')],
                                                  JObj [(''msg'', JStr ''Password needs a digit'')]]),
                            (''email'', JArr [JObj [(''msg'', JStr ''Invalid email'')]])])]\<rparr>"

definition example_profile :: profile where
  "example_profile =
     \<lparr>isEditing = True, saving = True,
      formData = JObj [(''first_name'', JStr ''Ada''), (''phone'', JStr ''0100'')]\<rparr>"

definition saved_identity :: json where
  "saved_identity =
     JObj [(''email'', JStr ''admin@example.com''), (''first_name'', JStr ''Ada''),
           (''is_admin'', JBool True)]"

definition profile_server :: network where
  "profile_server req = Answer \<lparr>status = 200, data = saved_identity\<rparr>"



definition unauthorized :: js_error where
  "unauthorized = HttpError \<lparr>status = 401, data = JObj [(''detail'', JStr ''Not authenticated'')]\<rparr>"

definition locked_server :: network where
  "locked_server req =
     Answer \<lparr>status = 401, data = JObj [(''detail'', JStr ''Not authenticated'')]\<rparr>"

text \<open>Three servers that reject a signup with a field to error list mapping.\<close>

definition empty_list_server :: network where
  "empty_list_server req =
     Answer \<lparr>status = 422,
             data = JObj [(''detail'',
                      JObj [(''email'', JArr []),
                            (''password'', JArr [JObj [(''msg'', JStr ''Password too short'')]])])]\<rparr>"

definition plain_errors_server :: network where
  "plain_errors_server req =
     Answer \<lparr>status = 422,
             data = JObj [(''detail'', JObj [(''email'', JArr [JStr ''Invalid email''])])]\<rparr>"

definition empty_msg_server :: network where
  "empty_msg_server req =
     Answer \<lparr>status = 422,
             data = JObj [(''detail'', JObj [(''email'', JArr [JObj [(''msg'', JStr [])]])])]\<rparr>"

section \<open>Basic facts\<close>

lemmas effect_defs = emit_def setItem_def removeItem_def set_href_def toast_error_def
  toast_success_def setUser_def setLoading_def

lemma requests_append: "requests (a @ b) = requests a @ requests b"
  by (induction a rule: requests.induct) simp_all

lemma stored_append: "stored (a @ b) = stored a @ stored b"
  by (induction a rule: stored.induct) simp_all

lemma notifications_differ: "msg_server_error \<noteq> msg_connection_problem"
  by (simp add: msg_server_error_def msg_connection_problem_def)

lemma authAPI_login_request: "authAPI_login net em pw s = api_request net (login_config em pw) s"
  by (simp add: authAPI_login_def api_post_def login_config_def)

lemma authAPI_signup_request: "authAPI_signup net ud s = api_request net (signup_config ud) s"
  by (simp add: authAPI_signup_def api_post_def signup_config_def)

lemma userAPI_me_request: "userAPI_me net s = api_request net me_config s"
  by (simp add: userAPI_me_def api_get_def me_config_def)

lemma userAPI_updateProfile_request:
  "userAPI_updateProfile net d s = api_request net (updateProfile_config d) s"
  by (simp add: userAPI_updateProfile_def api_put_def updateProfile_config_def)

lemma api_request_resolved:
  "net (request_interceptor s c) = Answer r \<Longrightarrow> 200 \<le> status r \<Longrightarrow> status r < 300 \<Longrightarrow>
   api_request net c s = (Inr r, emit (Sent (request_interceptor s c)) s)"
  by (simp add: api_request_def response_fulfilled_def Let_def)

lemma api_request_rejected:
  "net (request_interceptor s c) = Answer r \<Longrightarrow> \<not> (200 \<le> status r \<and> status r < 300) \<Longrightarrow>
   api_request net c s = response_rejected (HttpError r) (emit (Sent (request_interceptor s c)) s)"
  by (auto simp: api_request_def Let_def)

lemma api_request_unreachable:
  "net (request_interceptor s c) = NoAnswer \<Longrightarrow>
   api_request net c s = response_rejected NetworkError (emit (Sent (request_interceptor s c)) s)"
  by (simp add: api_request_def Let_def)

lemma api_request_effects:
  assumes "api_request net c s = (res, s')"
  shows "user s' = user s" and "loading s' = loading s"
    and "requests (trace s') = requests (trace s) @ [request_interceptor s c]"
    and "stored (trace s') = stored (trace s)"
    and "access_token s' = access_token s \<or> access_token s' = None"
    and "\<exists>evs. trace s' = trace s @ Sent (request_interceptor s c) # evs \<and>
           requests evs = [] \<and> stored evs = []"
  using assms
  by (auto simp: api_request_def Let_def response_fulfilled_def response_rejected_def effect_defs
      requests_append stored_append split: reply.splits if_splits option.splits)

lemma api_request_failed:
  assumes "api_request net c s = (Inl e, s')"
  shows "\<not> (\<exists>r. net (request_interceptor s c) = Answer r \<and> 200 \<le> status r \<and> status r < 300)"
  using assms
  by (auto simp: api_request_def Let_def response_fulfilled_def response_rejected_def
      split: reply.splits if_splits)

lemma api_request_succeeded:
  assumes "api_request net c s = (Inr r, s')"
  shows "net (request_interceptor s c) = Answer r \<and> 200 \<le> status r \<and> status r < 300 \<and>
         s' = emit (Sent (request_interceptor s c)) s"
  using assms
  by (auto simp: api_request_def Let_def response_fulfilled_def response_rejected_def
      split: reply.splits if_splits)

section \<open>The response interceptor\<close>

text \<open>
  Claim C1. The response interceptor lets a response pass unchanged. An error is always
  rejected again as it came. Before that: with status 401 the stored token is removed and
  the location is set to \<open>/login\<close>; with a status of 500 or more the server-error
  notification is shown and nothing but the trace changes (the token and the location
  stay); without a response the connection notification, a different text, is shown and
  nothing but the trace changes. Every call on the axios instance ends in this
  interceptor: a 2xx answer in its first handler, any other answer and a missing answer in
  its second.
\<close>

theorem response_interceptor_reaction:
  "response_fulfilled r s = (Inr r, s) \<and>
   fst (response_rejected e s) = Inl e \<and>
   (err_status e = Some 401 \<longrightarrow>
      snd (response_rejected e s) =
        s\<lparr>access_token := None, href := ''/login'',
          trace := trace s @ [RemoveItem, Navigate ''/login'']\<rparr>) \<and>
   ((\<exists>n. err_status e = Some n \<and> 500 \<le> n) \<longrightarrow>
      snd (response_rejected e s) =
        s\<lparr>trace := trace s @ [Toast ToastError (JStr msg_server_error)]\<rparr>) \<and>
   (err_response e = None \<longrightarrow>
      snd (response_rejected e s) =
        s\<lparr>trace := trace s @ [Toast ToastError (JStr msg_connection_problem)]\<rparr>) \<and>
   msg_server_error \<noteq> msg_connection_problem \<and>
   (\<forall>a. net (request_interceptor s config) = Answer a \<longrightarrow>
      api_request net config s =
        (if 200 \<le> status a \<and> status a < 300
         then response_fulfilled a (emit (Sent (request_interceptor s config)) s)
         else response_rejected (HttpError a) (emit (Sent (request_interceptor s config)) s))) \<and>
   (net (request_interceptor s config) = NoAnswer \<longrightarrow>
      api_request net config s =
        response_rejected NetworkError (emit (Sent (request_interceptor s config)) s))"
  by (auto simp: response_fulfilled_def response_rejected_def effect_defs err_status_def
      notifications_differ api_request_def Let_def)

theorem response_interceptor_reaction_witness:
  "snd (response_rejected unauthorized example_client) =
     example_client\<lparr>access_token := None, href := ''/login'',
       trace := [RemoveItem, Navigate ''/login'']\<rparr> \<and>
   snd (response_rejected (HttpError \<lparr>status = 503, data = JNull\<rparr>) example_client) =
     example_client\<lparr>trace := [Toast ToastError (JStr msg_server_error)]\<rparr> \<and>
   snd (response_rejected NetworkError example_client) =
     example_client\<lparr>trace := [Toast ToastError (JStr msg_connection_problem)]\<rparr> \<and>
   api_request offline me_config anonymous_client =
     (Inl NetworkError,
      anonymous_client\<lparr>trace := [Sent me_config, Toast ToastError (JStr msg_connection_problem)]\<rparr>) \<and>
   fst (api_request outage_server me_config anonymous_client) =
     Inl (HttpError \<lparr>status = 503, data = JObj [(''detail'', JStr ''Service Unavailable'')]\<rparr>)"
proof -
  note a = response_interceptor_reaction [of _ example_client unauthorized offline me_config]
  note b = response_interceptor_reaction [of _ example_client "HttpError \<lparr>status = 503, data = JNull\<rparr>"
      offline me_config]
  note c = response_interceptor_reaction [of _ example_client NetworkError offline me_config]
  note d = response_interceptor_reaction [of _ anonymous_client NetworkError offline me_config]
  note e = response_interceptor_reaction [of _ anonymous_client NetworkError outage_server me_config]
  have same: "request_interceptor anonymous_client me_config = me_config"
    by (simp add: request_interceptor_def anonymous_client_def)
  have down: "offline (request_interceptor anonymous_client me_config) = NoAnswer"
    by (simp add: offline_def)
  have out: "outage_server (request_interceptor anonymous_client me_config) =
      Answer \<lparr>status = 503, data = JObj [(''detail'', JStr ''Service Unavailable'')]\<rparr>"
    by (simp add: outage_server_def)
  have d': "api_request offline me_config anonymous_client =
      response_rejected NetworkError (emit (Sent me_config) anonymous_client)"
    using d down by (simp add: same)
  have e': "api_request outage_server me_config anonymous_client =
      response_rejected (HttpError \<lparr>status = 503, data = JObj [(''detail'', JStr ''Service Unavailable'')]\<rparr>)
        (emit (Sent me_config) anonymous_client)"
    using e out by (simp add: same)
  have first: "snd (response_rejected unauthorized example_client) =
     example_client\<lparr>access_token := None, href := ''/login'',
       trace := [RemoveItem, Navigate ''/login'']\<rparr>"
    using a by (simp add: err_status_def unauthorized_def example_client_def)
  have second: "snd (response_rejected (HttpError \<lparr>status = 503, data = JNull\<rparr>) example_client) =
     example_client\<lparr>trace := [Toast ToastError (JStr msg_server_error)]\<rparr>"
    using b by (simp add: err_status_def example_client_def)
  have third: "snd (response_rejected NetworkError example_client) =
     example_client\<lparr>trace := [Toast ToastError (JStr msg_connection_problem)]\<rparr>"
    using c by (simp add: example_client_def)
  have fourth: "api_request offline me_config anonymous_client =
     (Inl NetworkError,
      anonymous_client\<lparr>trace := [Sent me_config, Toast ToastError (JStr msg_connection_problem)]\<rparr>)"
    unfolding d' by (simp add: response_rejected_def err_status_def effect_defs anonymous_client_def)
  have fifth: "fst (api_request outage_server me_config anonymous_client) =
     Inl (HttpError \<lparr>status = 503, data = JObj [(''detail'', JStr ''Service Unavailable'')]\<rparr>)"
    unfolding e' by (simp add: response_rejected_def)
  from first second third fourth fifth show ?thesis by simp
qed

section \<open>Logout\<close>

text \<open>
  Claim C7. \<open>logout\<close> empties the store and the cached identity in every state, shows
  its confirmation, and sends no request. From a state that is already anonymous (no
  token, no identity) nothing but the trace changes, and a second \<open>logout\<close> leaves the
  store, the identity, the location and the loading flag as the first left them.
\<close>

theorem logout_local_idempotent:
  "logout s = s\<lparr>access_token := None, user := JNull,
      trace := trace s @ [RemoveItem, SetUser JNull, Toast ToastSuccess (JStr msg_logout_ok)]\<rparr> \<and>
   requests (trace (logout s)) = requests (trace s) \<and>
   (access_token s = None \<and> user s = JNull \<longrightarrow>
      logout s = s\<lparr>trace := trace s @
        [RemoveItem, SetUser JNull, Toast ToastSuccess (JStr msg_logout_ok)]\<rparr>) \<and>
   access_token (logout (logout s)) = access_token (logout s) \<and>
   user (logout (logout s)) = user (logout s) \<and>
   href (logout (logout s)) = href (logout s) \<and>
   loading (logout (logout s)) = loading (logout s)"
  by (simp add: logout_def effect_defs requests_append)

theorem logout_local_idempotent_witness:
  "access_token anonymous_client = None \<and> user anonymous_client = JNull \<and>
   logout anonymous_client = anonymous_client\<lparr>trace :=
     [RemoveItem, SetUser JNull, Toast ToastSuccess (JStr msg_logout_ok)]\<rparr>"
  using logout_local_idempotent [of anonymous_client]
  by (simp add: anonymous_client_def)

section \<open>Login\<close>

lemma login_catch_effects:
  "login_catch e s = (Failure (login_message e), s\<lparr>trace := trace s @ [Toast ToastError (login_message e)]\<rparr>)"
  by (simp add: login_catch_def effect_defs)

lemma login_resolved:
  assumes net: "net (login_request s em pw) = Answer r"
    and ok: "200 \<le> status r" "status r < 300"
    and body: "data r \<noteq> JNull"
    and tok: "tok = to_string (get_prop (data r) ''access_token'')"
    and s2: "s2 = setItem tok (emit (Sent (login_request s em pw)) s)"
  shows "login net em pw s =
           (case api_request net me_config s2 of
              (Inl e, s3) \<Rightarrow> login_catch e s3
            | (Inr u, s3) \<Rightarrow> (Success (data u), toast_success msg_login_ok (setUser (data u) s3)))"
proof -
  have "api_request net (login_config em pw) s = (Inr r, emit (Sent (login_request s em pw)) s)"
    using net ok by (simp add: api_request_resolved login_request_def)
  then show ?thesis
    using body tok s2
    by (simp add: login_def authAPI_login_request userAPI_me_request Let_def)
qed

lemma login_identity_fetched:
  assumes net: "net (login_request s em pw) = Answer r"
    and ok: "200 \<le> status r" "status r < 300"
    and body: "data r \<noteq> JNull"
    and tok: "tok = to_string (get_prop (data r) ''access_token'')"
    and s2: "s2 = setItem tok (emit (Sent (login_request s em pw)) s)"
    and me: "net (me_request s2) = Answer u" "200 \<le> status u" "status u < 300"
  shows "login net em pw s =
           (Success (data u),
            s2\<lparr>user := data u,
               trace := trace s @ [Sent (login_request s em pw), SetItem tok, Sent (me_request s2),
                                   SetUser (data u), Toast ToastSuccess (JStr msg_login_ok)]\<rparr>)"
proof -
  have "api_request net me_config s2 = (Inr u, emit (Sent (me_request s2)) s2)"
    using me by (simp add: api_request_resolved me_request_def)
  then show ?thesis
    using login_resolved [where net = net, OF net ok body tok s2]
    by (simp add: s2 effect_defs)
qed

lemma login_identity_failed:
  assumes net: "net (login_request s em pw) = Answer r"
    and ok: "200 \<le> status r" "status r < 300"
    and body: "data r \<noteq> JNull"
    and tok: "tok = to_string (get_prop (data r) ''access_token'')"
    and s2: "s2 = setItem tok (emit (Sent (login_request s em pw)) s)"
    and me: "\<not> (\<exists>u. net (me_request s2) = Answer u \<and> 200 \<le> status u \<and> status u < 300)"
  shows "\<not> success (fst (login net em pw s)) \<and>
         (\<exists>evs. trace (snd (login net em pw s)) =
            trace s @ [Sent (login_request s em pw), SetItem tok, Sent (me_request s2)] @ evs \<and>
            requests evs = [] \<and> stored evs = [])"
proof -
  obtain res s3 where call: "api_request net me_config s2 = (res, s3)"
    by (cases "api_request net me_config s2")
  have "\<exists>e. res = Inl e"
  proof (cases res)
    case (Inr u)
    with call me api_request_succeeded [of net me_config s2 u s3] show ?thesis
      by (simp add: me_request_def)
  qed simp
  then obtain e where res: "res = Inl e" ..
  from api_request_effects(6) [OF call] obtain evs
    where evs: "trace s3 = trace s2 @ Sent (me_request s2) # evs" "requests evs = []" "stored evs = []"
    by (auto simp: me_request_def)
  have "login net em pw s = login_catch e s3"
    using login_resolved [where net = net, OF net ok body tok s2] call res by simp
  then show ?thesis
    using evs by (simp add: login_catch_effects s2 effect_defs requests_append stored_append)
qed

lemma login_not_resolved:
  assumes "\<forall>r. net (login_request s em pw) = Answer r \<longrightarrow>
             \<not> (200 \<le> status r \<and> status r < 300) \<or> data r = JNull"
  shows "\<not> success (fst (login net em pw s)) \<and>
         requests (trace (snd (login net em pw s))) = requests (trace s) @ [login_request s em pw] \<and>
         stored (trace (snd (login net em pw s))) = stored (trace s) \<and>
         user (snd (login net em pw s)) = user s"
proof -
  obtain res s1 where call: "api_request net (login_config em pw) s = (res, s1)"
    by (cases "api_request net (login_config em pw) s")
  note eff = api_request_effects [OF call]
  show ?thesis
  proof (cases res)
    case (Inl e)
    then show ?thesis
      using call eff
      by (simp add: login_def authAPI_login_request login_catch_effects login_request_def
          requests_append stored_append)
  next
    case (Inr r)
    with call api_request_succeeded [of net "login_config em pw" s r s1] assms
    have "data r = JNull" by (auto simp: login_request_def)
    then show ?thesis
      using call eff Inr
      by (simp add: login_def authAPI_login_request login_catch_effects login_request_def
          requests_append stored_append)
  qed
qed

text \<open>
  Claim C2. When the server answers the credential request with a 2xx status (200 among
  them) and a body that is not \<open>null\<close>, \<open>login\<close> first writes the string of the
  body's \<open>access_token\<close> to the store (the token itself when it is a string), then sends
  the identity request, and nothing is sent or stored after that. The outcome is a success
  exactly when the identity request is answered with 2xx, and then the outcome carries the
  fetched identity, which is also the cached user. When the credential request is not
  answered with 2xx, or its body is \<open>null\<close> (then there is no token to read), the
  credential request is the only request sent, nothing is stored and the outcome is a
  failure: the identity request never starts before the credential call has succeeded.
\<close>

theorem login_sequence:
  "(\<forall>r tok s2.
      net (login_request s em pw) = Answer r \<and> 200 \<le> status r \<and> status r < 300 \<and>
      data r \<noteq> JNull \<and> tok = to_string (get_prop (data r) ''access_token'') \<and>
      s2 = setItem tok (emit (Sent (login_request s em pw)) s) \<longrightarrow>
        (\<forall>t. get_prop (data r) ''access_token'' = Some (JStr t) \<longrightarrow> tok = t) \<and>
        (\<exists>evs. trace (snd (login net em pw s)) =
            trace s @ [Sent (login_request s em pw), SetItem tok, Sent (me_request s2)] @ evs \<and>
            requests evs = [] \<and> stored evs = []) \<and>
        (success (fst (login net em pw s)) \<longleftrightarrow>
           (\<exists>u. net (me_request s2) = Answer u \<and> 200 \<le> status u \<and> status u < 300)) \<and>
        (\<forall>u. net (me_request s2) = Answer u \<and> 200 \<le> status u \<and> status u < 300 \<longrightarrow>
           login net em pw s =
             (Success (data u),
              s2\<lparr>user := data u,
                 trace := trace s @ [Sent (login_request s em pw), SetItem tok, Sent (me_request s2),
                                     SetUser (data u), Toast ToastSuccess (JStr msg_login_ok)]\<rparr>))) \<and>
   ((\<forall>r. net (login_request s em pw) = Answer r \<longrightarrow>
          \<not> (200 \<le> status r \<and> status r < 300) \<or> data r = JNull) \<longrightarrow>
      \<not> success (fst (login net em pw s)) \<and>
      requests (trace (snd (login net em pw s))) = requests (trace s) @ [login_request s em pw] \<and>
      stored (trace (snd (login net em pw s))) = stored (trace s))"
proof (intro conjI allI impI)
  fix r tok s2 t
  assume h: "net (login_request s em pw) = Answer r \<and> 200 \<le> status r \<and> status r < 300 \<and>
      data r \<noteq> JNull \<and> tok = to_string (get_prop (data r) ''access_token'') \<and>
      s2 = setItem tok (emit (Sent (login_request s em pw)) s)"
  assume "get_prop (data r) ''access_token'' = Some (JStr t)"
  with h show "tok = t" by (simp add: to_string_def)
next
  fix r tok s2
  assume h: "net (login_request s em pw) = Answer r \<and> 200 \<le> status r \<and> status r < 300 \<and>
      data r \<noteq> JNull \<and> tok = to_string (get_prop (data r) ''access_token'') \<and>
      s2 = setItem tok (emit (Sent (login_request s em pw)) s)"
  then have net: "net (login_request s em pw) = Answer r" and ok: "200 \<le> status r" "status r < 300"
    and body: "data r \<noteq> JNull" and tok: "tok = to_string (get_prop (data r) ''access_token'')"
    and s2: "s2 = setItem tok (emit (Sent (login_request s em pw)) s)"
    by simp_all
  note good = login_identity_fetched [where net = net, OF net ok body tok s2]
  note bad = login_identity_failed [where net = net, OF net ok body tok s2]
  show "\<exists>evs. trace (snd (login net em pw s)) =
            trace s @ [Sent (login_request s em pw), SetItem tok, Sent (me_request s2)] @ evs \<and>
            requests evs = [] \<and> stored evs = []"
  proof (cases "\<exists>u. net (me_request s2) = Answer u \<and> 200 \<le> status u \<and> status u < 300")
    case True
    then obtain u where "net (me_request s2) = Answer u" "200 \<le> status u" "status u < 300" by blast
    from good [OF this] show ?thesis by simp
  next
    case False
    from bad [OF this] show ?thesis by simp
  qed
  show "success (fst (login net em pw s)) \<longleftrightarrow>
           (\<exists>u. net (me_request s2) = Answer u \<and> 200 \<le> status u \<and> status u < 300)"
  proof (cases "\<exists>u. net (me_request s2) = Answer u \<and> 200 \<le> status u \<and> status u < 300")
    case True
    then obtain u where "net (me_request s2) = Answer u" "200 \<le> status u" "status u < 300" by blast
    from good [OF this] True show ?thesis by simp
  next
    case False
    from bad [OF this] False show ?thesis by simp
  qed
  fix u
  assume "net (me_request s2) = Answer u \<and> 200 \<le> status u \<and> status u < 300"
  then have "net (me_request s2) = Answer u" "200 \<le> status u" "status u < 300" by simp_all
  from good [OF this]
  show "login net em pw s =
             (Success (data u),
              s2\<lparr>user := data u,
                 trace := trace s @ [Sent (login_request s em pw), SetItem tok, Sent (me_request s2),
                                     SetUser (data u), Toast ToastSuccess (JStr msg_login_ok)]\<rparr>)" .
next
  assume h: "\<forall>r. net (login_request s em pw) = Answer r \<longrightarrow>
          \<not> (200 \<le> status r \<and> status r < 300) \<or> data r = JNull"
  from login_not_resolved [where net = net, OF h]
  show "\<not> success (fst (login net em pw s))"
    and "requests (trace (snd (login net em pw s))) = requests (trace s) @ [login_request s em pw]"
    and "stored (trace (snd (login net em pw s))) = stored (trace s)"
    by simp_all
qed

theorem login_sequence_witness:
  "login admin_server ''admin@example.com'' ''admin123'' anonymous_client =
     (Success admin_identity,
      anonymous_client\<lparr>access_token := Some ''abc'', user := admin_identity,
        trace := [Sent (login_config ''admin@example.com'' ''admin123''), SetItem ''abc'',
                  Sent (me_config\<lparr>headers := [(''Authorization'', ''Bearer abc'')]\<rparr>),
                  SetUser admin_identity, Toast ToastSuccess (JStr msg_login_ok)]\<rparr>) \<and>
   \<not> success (fst (login offline ''admin@example.com'' ''admin123'' anonymous_client)) \<and>
   requests (trace (snd (login offline ''admin@example.com'' ''admin123'' anonymous_client))) =
     [login_config ''admin@example.com'' ''admin123'']"
proof -
  let ?s = anonymous_client and ?em = "''admin@example.com''" and ?pw = "''admin123''"
  let ?r = "\<lparr>status = 200, data = JObj [(''access_token'', JStr ''abc'')]\<rparr>"
  let ?u = "\<lparr>status = 200, data = admin_identity\<rparr>"
  let ?s2 = "setItem ''abc'' (emit (Sent (login_request ?s ?em ?pw)) ?s)"
  have req: "login_request ?s ?em ?pw = login_config ?em ?pw"
    by (simp add: login_request_def request_interceptor_def anonymous_client_def)
  have me: "me_request ?s2 = me_config\<lparr>headers := [(''Authorization'', ''Bearer abc'')]\<rparr>"
    by (simp add: me_request_def request_interceptor_def effect_defs me_config_def)
  have h1: "admin_server (login_request ?s ?em ?pw) = Answer ?r \<and> 200 \<le> status ?r \<and>
      status ?r < 300 \<and> data ?r \<noteq> JNull \<and>
      ''abc'' = to_string (get_prop (data ?r) ''access_token'') \<and>
      ?s2 = setItem ''abc'' (emit (Sent (login_request ?s ?em ?pw)) ?s)"
    by (simp add: req admin_server_def login_config_def to_string_def)
  have h2: "admin_server (me_request ?s2) = Answer ?u \<and> 200 \<le> status ?u \<and> status ?u < 300"
    by (simp add: me admin_server_def me_config_def header_def)
  have h3: "\<forall>r. offline (login_request ?s ?em ?pw) = Answer r \<longrightarrow>
      \<not> (200 \<le> status r \<and> status r < 300) \<or> data r = JNull"
    by (simp add: offline_def)
  note online = login_sequence [of admin_server ?s ?em ?pw, THEN conjunct1, rule_format, OF h1]
  note fetched = online [THEN conjunct2, THEN conjunct2, THEN conjunct2, rule_format, OF h2]
  note down = login_sequence [of offline ?s ?em ?pw, THEN conjunct2, THEN mp, OF h3]
  show ?thesis
    using fetched down
    by (simp add: login_request_def me_request_def request_interceptor_def me_config_def
        effect_defs anonymous_client_def)
qed

text \<open>
  Claim C3. When the server answers the credential request with status 400 or 401, the
  outcome of \<open>login\<close> is a failure; nothing is written to the store, so a store that
  was empty stays empty, and the cached identity is not touched, so an anonymous client
  stays anonymous. On a 401 the response interceptor has also removed the token and set
  the location to \<open>/login\<close>. When the body of a 400 carries a \<open>detail\<close> that is a
  string and not empty, that string is the failure message (and the text of the toast).
\<close>

theorem login_invalid_credentials:
  assumes net: "net (login_request s em pw) = Answer r"
    and bad: "status r = 400 \<or> status r = 401"
  shows "fst (login net em pw s) = Failure (login_message (HttpError r)) \<and>
         snd (login net em pw s) =
           (if status r = 401
            then s\<lparr>access_token := None, href := ''/login'',
                   trace := trace s @ [Sent (login_request s em pw), RemoveItem, Navigate ''/login'',
                                       Toast ToastError (login_message (HttpError r))]\<rparr>
            else s\<lparr>trace := trace s @ [Sent (login_request s em pw),
                                       Toast ToastError (login_message (HttpError r))]\<rparr>) \<and>
         stored (trace (snd (login net em pw s))) = stored (trace s) \<and>
         user (snd (login net em pw s)) = user s \<and>
         (access_token s = None \<longrightarrow> access_token (snd (login net em pw s)) = None) \<and>
         (\<forall>d. status r = 400 \<and> get_prop (data r) ''detail'' = Some (JStr d) \<and> d \<noteq> [] \<longrightarrow>
              login_message (HttpError r) = JStr d) \<and>
         (status r = 401 \<longrightarrow> login_message (HttpError r) = JStr msg_auth_failed)"
proof -
  from bad have "\<not> (200 \<le> status r \<and> status r < 300)" by auto
  with net have call: "api_request net (login_config em pw) s =
      response_rejected (HttpError r) (emit (Sent (login_request s em pw)) s)"
    by (simp add: api_request_rejected login_request_def)
  have run: "login net em pw s =
      login_catch (HttpError r) (snd (response_rejected (HttpError r) (emit (Sent (login_request s em pw)) s)))"
    by (simp add: login_def authAPI_login_request call response_rejected_def)
  have msg: "status r = 400 \<and> get_prop (data r) ''detail'' = Some (JStr d) \<and> d \<noteq> [] \<longrightarrow>
      login_message (HttpError r) = JStr d" for d
    by (cases "data r") (auto simp: login_message_def opt_chain_def or_else_def)
  have msg401: "status r = 401 \<longrightarrow> login_message (HttpError r) = JStr msg_auth_failed"
    by (simp add: login_message_def)
  show ?thesis
    using bad msg msg401
    by (auto simp: run login_catch_effects response_rejected_def err_status_def effect_defs
        stored_append)
qed

theorem login_invalid_credentials_witness:
  "login wrong_password_server ''x@example.com'' ''wrong'' anonymous_client =
     (Failure (JStr ''Incorrect email or password''),
      anonymous_client\<lparr>trace := [Sent (login_config ''x@example.com'' ''wrong''),
                                  Toast ToastError (JStr ''Incorrect email or password'')]\<rparr>) \<and>
   login locked_server ''x@example.com'' ''wrong'' anonymous_client =
     (Failure (JStr msg_auth_failed),
      anonymous_client\<lparr>trace := [Sent (login_config ''x@example.com'' ''wrong''), RemoveItem,
                                  Navigate ''/login'', Toast ToastError (JStr msg_auth_failed)]\<rparr>)"
proof -
  let ?r = "\<lparr>status = 400, data = JObj [(''detail'', JStr ''Incorrect email or password'')]\<rparr>"
  let ?q = "\<lparr>status = 401, data = JObj [(''detail'', JStr ''Not authenticated'')]\<rparr>"
  have net: "wrong_password_server (login_request anonymous_client ''x@example.com'' ''wrong'') = Answer ?r"
    by (simp add: wrong_password_server_def)
  have bad: "status ?r = 400 \<or> status ?r = 401" by simp
  have net': "locked_server (login_request anonymous_client ''x@example.com'' ''wrong'') = Answer ?q"
    by (simp add: locked_server_def)
  have bad': "status ?q = 400 \<or> status ?q = 401" by simp
  note t = login_invalid_credentials [of wrong_password_server, OF net bad]
  note t' = login_invalid_credentials [of locked_server, OF net' bad']
  from t [THEN conjunct2, THEN conjunct2, THEN conjunct2, THEN conjunct2, THEN conjunct2,
      THEN conjunct1, rule_format, of "''Incorrect email or password''"]
  have m: "login_message (HttpError ?r) = JStr ''Incorrect email or password''" by simp
  from t' [THEN conjunct2, THEN conjunct2, THEN conjunct2, THEN conjunct2, THEN conjunct2,
      THEN conjunct2]
  have m': "login_message (HttpError ?q) = JStr msg_auth_failed" by simp
  have one: "login wrong_password_server ''x@example.com'' ''wrong'' anonymous_client =
     (Failure (JStr ''Incorrect email or password''),
      anonymous_client\<lparr>trace := [Sent (login_config ''x@example.com'' ''wrong''),
                                  Toast ToastError (JStr ''Incorrect email or password'')]\<rparr>)"
    using t [THEN conjunct1] t [THEN conjunct2, THEN conjunct1]
    by (simp add: m prod_eq_iff login_request_def request_interceptor_def anonymous_client_def)
  have two: "login locked_server ''x@example.com'' ''wrong'' anonymous_client =
     (Failure (JStr msg_auth_failed),
      anonymous_client\<lparr>trace := [Sent (login_config ''x@example.com'' ''wrong''), RemoveItem,
                                  Navigate ''/login'', Toast ToastError (JStr msg_auth_failed)]\<rparr>)"
    using t' [THEN conjunct1] t' [THEN conjunct2, THEN conjunct1]
    by (simp add: m' prod_eq_iff login_request_def request_interceptor_def anonymous_client_def)
  from one two show ?thesis by simp
qed

section \<open>Restoring the session at startup\<close>

text \<open>
  Claim C10. When \<open>checkAuth\<close> finds a token in the store and the identity request is
  not answered with 2xx, whatever the reason (no answer at all, a 5xx, a 401 or any other
  status), the token is removed from the store. The cached identity stays as it was and
  the loading flag is cleared.
\<close>

theorem checkAuth_failure_discards_token:
  assumes tok: "access_token s = Some t" "t \<noteq> []"
    and fails: "\<not> (\<exists>r. net (me_request s) = Answer r \<and> 200 \<le> status r \<and> status r < 300)"
  shows "access_token (checkAuth net s) = None \<and>
         user (checkAuth net s) = user s \<and>
         loading (checkAuth net s) = False \<and>
         requests (trace (checkAuth net s)) = requests (trace s) @ [me_request s] \<and>
         (\<exists>evs. trace (checkAuth net s) = trace s @ Sent (me_request s) # evs @ [RemoveItem])"
proof -
  obtain res s1 where call: "api_request net me_config s = (res, s1)"
    by (cases "api_request net me_config s")
  have "\<exists>e. res = Inl e"
  proof (cases res)
    case (Inr u)
    with call fails api_request_succeeded [of net me_config s u s1] show ?thesis
      by (simp add: me_request_def)
  qed simp
  then obtain e where res: "res = Inl e" ..
  have run: "checkAuth net s = setLoading False (removeItem s1)"
    using tok call res by (simp add: checkAuth_def userAPI_me_request)
  from api_request_effects [OF call] show ?thesis
    by (auto simp: run effect_defs requests_append me_request_def)
qed

theorem checkAuth_failure_discards_token_witness:
  "checkAuth outage_server example_client =
     example_client\<lparr>access_token := None,
       trace := [Sent (me_config\<lparr>headers := [(''Authorization'', ''Bearer abc'')]\<rparr>),
                 Toast ToastError (JStr msg_server_error), RemoveItem]\<rparr> \<and>
   access_token (checkAuth offline example_client) = None"
proof -
  have tok: "access_token example_client = Some ''abc''" "''abc'' \<noteq> []"
    by (simp_all add: example_client_def)
  have f1: "\<not> (\<exists>r. outage_server (me_request example_client) = Answer r \<and> 200 \<le> status r \<and> status r < 300)"
    by (simp add: outage_server_def)
  have f2: "\<not> (\<exists>r. offline (me_request example_client) = Answer r \<and> 200 \<le> status r \<and> status r < 300)"
    by (simp add: offline_def)
  note a = checkAuth_failure_discards_token [of example_client _ outage_server, OF tok f1]
  note b = checkAuth_failure_discards_token [of example_client _ offline, OF tok f2]
  have run: "trace (checkAuth outage_server example_client) =
      [Sent (me_config\<lparr>headers := [(''Authorization'', ''Bearer abc'')]\<rparr>),
       Toast ToastError (JStr msg_server_error), RemoveItem]"
    by (simp add: checkAuth_def userAPI_me_request api_request_def request_interceptor_def
        response_rejected_def err_status_def outage_server_def effect_defs example_client_def
        me_config_def)
  have rest: "href (checkAuth outage_server example_client) = href example_client"
    by (simp add: checkAuth_def userAPI_me_request api_request_def request_interceptor_def
        response_rejected_def err_status_def outage_server_def effect_defs example_client_def
        me_config_def)
  show ?thesis
    using a b run rest by (simp add: example_client_def)
qed

section \<open>Saving the profile\<close>

lemma user_writes_append: "user_writes (a @ b) = user_writes a @ user_writes b"
  by (induction a rule: user_writes.induct) simp_all

lemma api_request_writes:
  "user_writes (trace (snd (api_request net c s))) = user_writes (trace s)"
  by (auto simp: api_request_def Let_def response_fulfilled_def response_rejected_def effect_defs
      user_writes_append split: reply.splits option.splits)

lemma api_request_writes':
  "api_request net c s = (res, s') \<Longrightarrow> user_writes (trace s') = user_writes (trace s)"
  using api_request_writes [of net c s] by simp

lemma login_catch_writes:
  "user_writes (trace (snd (login_catch e s))) = user_writes (trace s)"
  by (simp add: login_catch_effects user_writes_append)

lemma login_writes:
  "user_writes (trace (snd (login net em pw s))) =
     user_writes (trace s) @ (case fst (login net em pw s) of Success v \<Rightarrow> [v] | _ \<Rightarrow> [])"
proof -
  obtain res s1 where call: "api_request net (login_config em pw) s = (res, s1)"
    by (cases "api_request net (login_config em pw) s")
  note w1 = api_request_writes' [OF call]
  show ?thesis
  proof (cases res)
    case (Inl e)
    with call w1 show ?thesis
      by (simp add: login_def authAPI_login_request login_catch_effects user_writes_append)
  next
    case (Inr r)
    show ?thesis
    proof (cases "data r = JNull")
      case True
      with call w1 Inr show ?thesis
        by (simp add: login_def authAPI_login_request login_catch_effects user_writes_append)
    next
      case False
      let ?s2 = "setItem (to_string (get_prop (data r) ''access_token'')) s1"
      obtain res2 s3 where call2: "api_request net me_config ?s2 = (res2, s3)"
        by (cases "api_request net me_config ?s2")
      have w2: "user_writes (trace s3) = user_writes (trace s)"
        using api_request_writes' [OF call2] w1 by (simp add: effect_defs user_writes_append)
      show ?thesis
        using call Inr False call2 w2
        by (cases res2)
          (simp_all add: login_def authAPI_login_request userAPI_me_request login_catch_effects
            toast_success_def setUser_def emit_def user_writes_append)
    qed
  qed
qed

lemma checkAuth_writes:
  "user_writes (trace (checkAuth net s)) = user_writes (trace s) \<or>
   user_writes (trace (checkAuth net s)) = user_writes (trace s) @ [user (checkAuth net s)]"
proof -
  obtain res s1 where call: "api_request net me_config s = (res, s1)"
    by (cases "api_request net me_config s")
  note w1 = api_request_writes' [OF call]
  show ?thesis
    using call w1
    by (cases res)
      (auto simp: checkAuth_def userAPI_me_request effect_defs user_writes_append
        split: option.splits)
qed

lemma signup_writes:
  "user_writes (trace (snd (signup net ud s))) = user_writes (trace s) \<or>
   (\<exists>v. user_writes (trace (snd (signup net ud s))) = user_writes (trace s) @ [v])"
proof -
  obtain res s1 where call: "api_request net (signup_config ud) s = (res, s1)"
    by (cases "api_request net (signup_config ud) s")
  note w1 = api_request_writes' [OF call]
  show ?thesis
  proof (cases res)
    case (Inl e)
    with call w1 show ?thesis
      by (auto simp: signup_def authAPI_signup_request signup_catch_def signup_fail_def
          toast_error_def emit_def user_writes_append split: option.splits json.splits list.splits)
  next
    case (Inr r)
    obtain lr s2 where lg: "login net (email ud) (password ud) s1 = (lr, s2)"
      by (cases "login net (email ud) (password ud) s1")
    from login_writes [of net "email ud" "password ud" s1] lg w1
    have "user_writes (trace s2) =
        user_writes (trace s) @ (case lr of Success v \<Rightarrow> [v] | _ \<Rightarrow> [])"
      by simp
    then show ?thesis
      using call Inr lg
      by (cases lr)
        (simp_all add: signup_def authAPI_signup_request toast_success_def emit_def
          user_writes_append)
  qed
qed

text \<open>
  Claim C9, as amended. The cached identity is written by the session controller alone:
  by its \<open>logout\<close> (which sets it to \<open>null\<close>), by its \<open>login\<close> (which sets it to the
  fetched identity when it succeeds, and not otherwise), by \<open>checkAuth\<close> and \<open>signup\<close>
  (at most one write each), and by \<open>updateUser\<close>. Outside the controller nothing
  writes it but through \<open>updateUser\<close>: a call on the axios instance and a call of the
  admin service never write it, and \<open>Profile.handleSave\<close> writes it once, by
  \<open>updateUser\<close>, when the server answers the update with 2xx, and not at all when the
  update fails. \<open>updateUser\<close> replaces the whole cached identity by its argument, and
  \<open>handleSave\<close> gives it the body of the answer: afterwards the cache is exactly what
  the server returned, whatever the form held and whatever was cached before.
\<close>

theorem handleSave_replaces_identity:
  "updateUser u s = s\<lparr>user := u, trace := trace s @ [SetUser u]\<rparr> \<and>
   (\<forall>r. net (updateProfile_request s (formData p)) = Answer r \<and> 200 \<le> status r \<and> status r < 300 \<longrightarrow>
      snd (handleSave net p s) =
        toast_success msg_profile_ok
          (updateUser (data r) (emit (Sent (updateProfile_request s (formData p))) s)) \<and>
      user (snd (handleSave net p s)) = data r \<and>
      access_token (snd (handleSave net p s)) = access_token s \<and>
      trace (snd (handleSave net p s)) =
        trace s @ [Sent (updateProfile_request s (formData p)), SetUser (data r),
                   Toast ToastSuccess (JStr msg_profile_ok)] \<and>
      user_writes (trace (snd (handleSave net p s))) = user_writes (trace s) @ [data r]) \<and>
   (\<not> (\<exists>r. net (updateProfile_request s (formData p)) = Answer r \<and> 200 \<le> status r \<and> status r < 300) \<longrightarrow>
      user (snd (handleSave net p s)) = user s \<and>
      user_writes (trace (snd (handleSave net p s))) = user_writes (trace s)) \<and>
   user_writes (trace (snd (api_request net config s))) = user_writes (trace s) \<and>
   user (snd (api_request net config s)) = user s \<and>
   user_writes (trace (snd (makeRequest net endpoint opts s))) = user_writes (trace s) \<and>
   user (snd (makeRequest net endpoint opts s)) = user s \<and>
   user_writes (trace (logout s)) = user_writes (trace s) @ [JNull] \<and>
   user_writes (trace (snd (login net em pw s))) =
     user_writes (trace s) @ (case fst (login net em pw s) of Success v \<Rightarrow> [v] | _ \<Rightarrow> []) \<and>
   (user_writes (trace (checkAuth net s)) = user_writes (trace s) \<or>
    user_writes (trace (checkAuth net s)) = user_writes (trace s) @ [user (checkAuth net s)]) \<and>
   (user_writes (trace (snd (signup net ud s))) = user_writes (trace s) \<or>
    (\<exists>v. user_writes (trace (snd (signup net ud s))) = user_writes (trace s) @ [v]))"
proof (intro conjI allI impI)
  show "updateUser u s = s\<lparr>user := u, trace := trace s @ [SetUser u]\<rparr>"
    by (simp add: updateUser_def effect_defs)
next
  fix r
  assume "net (updateProfile_request s (formData p)) = Answer r \<and> 200 \<le> status r \<and> status r < 300"
  then have call: "api_request net (updateProfile_config (formData p)) s =
      (Inr r, emit (Sent (updateProfile_request s (formData p))) s)"
    by (simp add: api_request_resolved updateProfile_request_def)
  then show "snd (handleSave net p s) =
        toast_success msg_profile_ok
          (updateUser (data r) (emit (Sent (updateProfile_request s (formData p))) s))"
    and "user (snd (handleSave net p s)) = data r"
    and "access_token (snd (handleSave net p s)) = access_token s"
    and "trace (snd (handleSave net p s)) =
        trace s @ [Sent (updateProfile_request s (formData p)), SetUser (data r),
                   Toast ToastSuccess (JStr msg_profile_ok)]"
    and "user_writes (trace (snd (handleSave net p s))) = user_writes (trace s) @ [data r]"
    by (simp_all add: handleSave_def userAPI_updateProfile_request updateUser_def effect_defs
        user_writes_append)
next
  assume fails: "\<not> (\<exists>r. net (updateProfile_request s (formData p)) = Answer r \<and>
      200 \<le> status r \<and> status r < 300)"
  obtain res s1 where call: "api_request net (updateProfile_config (formData p)) s = (res, s1)"
    by (cases "api_request net (updateProfile_config (formData p)) s")
  have "\<exists>e. res = Inl e"
  proof (cases res)
    case (Inr r)
    with call fails api_request_succeeded [of net "updateProfile_config (formData p)" s r s1]
    show ?thesis by (simp add: updateProfile_request_def)
  qed simp
  then obtain e where "res = Inl e" ..
  with call api_request_effects(1) [OF call] api_request_writes' [OF call]
  show "user (snd (handleSave net p s)) = user s"
    and "user_writes (trace (snd (handleSave net p s))) = user_writes (trace s)"
    by (simp_all add: handleSave_def userAPI_updateProfile_request effect_defs user_writes_append)
next
  show "user_writes (trace (snd (api_request net config s))) = user_writes (trace s)"
    by (rule api_request_writes)
next
  obtain res s1 where call: "api_request net config s = (res, s1)"
    by (cases "api_request net config s")
  from api_request_effects(1) [OF call] call
  show "user (snd (api_request net config s)) = user s" by simp
next
  show "user_writes (trace (snd (makeRequest net endpoint opts s))) = user_writes (trace s)"
    by (simp add: makeRequest_def Let_def emit_def user_writes_append split: reply.splits)
next
  show "user (snd (makeRequest net endpoint opts s)) = user s"
    by (simp add: makeRequest_def Let_def emit_def split: reply.splits)
next
  show "user_writes (trace (logout s)) = user_writes (trace s) @ [JNull]"
    by (simp add: logout_def effect_defs user_writes_append)
next
  show "user_writes (trace (snd (login net em pw s))) =
     user_writes (trace s) @ (case fst (login net em pw s) of Success v \<Rightarrow> [v] | _ \<Rightarrow> [])"
    by (rule login_writes)
next
  show "user_writes (trace (checkAuth net s)) = user_writes (trace s) \<or>
    user_writes (trace (checkAuth net s)) = user_writes (trace s) @ [user (checkAuth net s)]"
    by (rule checkAuth_writes)
next
  show "user_writes (trace (snd (signup net ud s))) = user_writes (trace s) \<or>
    (\<exists>v. user_writes (trace (snd (signup net ud s))) = user_writes (trace s) @ [v])"
    by (rule signup_writes)
qed

theorem handleSave_replaces_identity_witness:
  "user (snd (handleSave profile_server example_profile example_client)) = saved_identity \<and>
   user (snd (handleSave offline example_profile example_client)) = user example_client"
proof -
  let ?r = "\<lparr>status = 200, data = saved_identity\<rparr>"
  have ok: "profile_server (updateProfile_request example_client (formData example_profile)) = Answer ?r \<and>
      200 \<le> status ?r \<and> status ?r < 300"
    by (simp add: profile_server_def)
  have down: "\<not> (\<exists>r. offline (updateProfile_request example_client (formData example_profile)) = Answer r \<and>
      200 \<le> status r \<and> status r < 300)"
    by (simp add: offline_def)
  note a = handleSave_replaces_identity [of _ example_client profile_server example_profile,
      THEN conjunct2, THEN conjunct1, rule_format, OF ok, THEN conjunct2, THEN conjunct1]
  note b = handleSave_replaces_identity [of _ example_client offline example_profile,
      THEN conjunct2, THEN conjunct2, THEN conjunct1, THEN mp, OF down, THEN conjunct1]
  show ?thesis using a b by simp
qed

text \<open>
  Claim C9 as it was stated fails: the cached identity is also changed by operations
  that are not the update operation. \<open>logout\<close> sets it to \<open>null\<close> without any request,
  and its result is not that of \<open>updateUser\<close>; \<open>login\<close> sets it to the fetched
  identity.
\<close>

theorem identity_written_without_update_counterexample:
  "user example_client \<noteq> JNull \<and>
   user (logout example_client) = JNull \<and>
   user_writes (trace (logout example_client)) = [JNull] \<and>
   requests (trace (logout example_client)) = [] \<and>
   logout example_client \<noteq> updateUser JNull example_client \<and>
   user anonymous_client = JNull \<and>
   user (snd (login admin_server ''admin@example.com'' ''admin123'' anonymous_client)) =
     admin_identity \<and>
   admin_identity \<noteq> JNull"
  by (simp add: logout_def updateUser_def login_def authAPI_login_request userAPI_me_request
      api_request_def request_interceptor_def response_fulfilled_def admin_server_def header_def
      login_config_def me_config_def to_string_def admin_identity_def example_client_def
      anonymous_client_def effect_defs)

section \<open>Signup\<close>

lemma signup_fail_effects:
  "signup_fail m e s =
     (Inr (SignupFailure m (err_status e)), s\<lparr>trace := trace s @ [Toast ToastError m]\<rparr>)"
  by (simp add: signup_fail_def effect_defs)

lemma signup_rejected:
  assumes "net (signup_request s ud) = Answer r" and "\<not> (200 \<le> status r \<and> status r < 300)"
  shows "signup net ud s =
           signup_catch (HttpError r)
             (snd (response_rejected (HttpError r) (emit (Sent (signup_request s ud)) s)))"
  using assms
  by (simp add: signup_def authAPI_signup_request api_request_rejected signup_request_def
      response_rejected_def)






lemma signup_unprocessable:
  assumes net: "net (signup_request s ud) = Answer r" and st: "status r = 422"
  shows "signup net ud s = signup_catch (HttpError r) (emit (Sent (signup_request s ud)) s)"
proof -
  from st have "\<not> (200 \<le> status r \<and> status r < 300)" by simp
  with net have "signup net ud s =
      signup_catch (HttpError r)
        (snd (response_rejected (HttpError r) (emit (Sent (signup_request s ud)) s)))"
    by (rule signup_rejected)
  moreover have "snd (response_rejected (HttpError r) (emit (Sent (signup_request s ud)) s)) =
      emit (Sent (signup_request s ud)) s"
    using st by (simp add: response_rejected_def err_status_def)
  ultimately show ?thesis by simp
qed

text \<open>
  Claim C8, as amended. Let the server answer the signup request with status 422 and a
  body whose \<open>detail\<close> is an object, its first field holding the value \<open>errors\<close>.
  When \<open>errors\<close> is a list that is not empty and its first error has a truthy \<open>msg\<close>,
  that \<open>msg\<close> is the failure message of \<open>signup\<close> and the text of its toast. When
  \<open>errors\<close> is the empty list, or its first error is not \<open>null\<close> and has no truthy
  \<open>msg\<close> (no \<open>msg\<close> at all, as for an error that is a plain string, or an empty one),
  the failure message is the generic \<open>msg_bad_format\<close>, whatever the other fields
  hold. In both cases no further request is sent.
\<close>

theorem signup_validation_message:
  assumes net: "net (signup_request s ud) = Answer r"
    and st: "status r = 422"
    and detail: "get_prop (data r) ''detail'' = Some (JObj ((field, errors) # others))"
  shows "(\<forall>err errs m. errors = JArr (err # errs) \<and> get_prop err ''msg'' = Some m \<and> truthy (Some m) \<longrightarrow>
            signup net ud s =
              (Inr (SignupFailure m (Some 422)),
               s\<lparr>trace := trace s @ [Sent (signup_request s ud), Toast ToastError m]\<rparr>)) \<and>
         (errors = JArr [] \<or>
          (\<exists>err errs. errors = JArr (err # errs) \<and> err \<noteq> JNull \<and> \<not> truthy (get_prop err ''msg'')) \<longrightarrow>
            signup net ud s =
              (Inr (SignupFailure (JStr msg_bad_format) (Some 422)),
               s\<lparr>trace := trace s @ [Sent (signup_request s ud),
                                     Toast ToastError (JStr msg_bad_format)]\<rparr>))"
proof (intro conjI allI impI)
  from detail have body: "data r \<noteq> JNull" by (cases "data r") simp_all
  note run = signup_unprocessable [where net = net, OF net st]
  {
    fix err errs m
    assume h: "errors = JArr (err # errs) \<and> get_prop err ''msg'' = Some m \<and> truthy (Some m)"
    then have err: "err \<noteq> JNull" by (cases err) simp_all
    have "signup_catch (HttpError r) s' = signup_fail m (HttpError r) s'" for s'
      using st body detail err h
      by (simp add: signup_catch_def opt_chain_def or_else_def)
    then have "signup net ud s = signup_fail m (HttpError r) (emit (Sent (signup_request s ud)) s)"
      by (simp add: run)
    then show "signup net ud s =
              (Inr (SignupFailure m (Some 422)),
               s\<lparr>trace := trace s @ [Sent (signup_request s ud), Toast ToastError m]\<rparr>)"
      using st by (simp add: signup_fail_effects err_status_def emit_def)
  }
  {
    assume h: "errors = JArr [] \<or>
          (\<exists>err errs. errors = JArr (err # errs) \<and> err \<noteq> JNull \<and> \<not> truthy (get_prop err ''msg''))"
    have "signup_catch (HttpError r) s' = signup_fail (JStr msg_bad_format) (HttpError r) s'" for s'
      using st body detail h
      by (auto simp: signup_catch_def opt_chain_def or_else_def split: option.splits)
    then have "signup net ud s =
        signup_fail (JStr msg_bad_format) (HttpError r) (emit (Sent (signup_request s ud)) s)"
      by (simp add: run)
    then show "signup net ud s =
              (Inr (SignupFailure (JStr msg_bad_format) (Some 422)),
               s\<lparr>trace := trace s @ [Sent (signup_request s ud),
                                     Toast ToastError (JStr msg_bad_format)]\<rparr>)"
      using st by (simp add: signup_fail_effects err_status_def emit_def)
  }
qed

theorem signup_validation_message_witness:
  "signup validation_server new_user anonymous_client =
     (Inr (SignupFailure (JStr ''Password too short'') (Some 422)),
      anonymous_client\<lparr>trace := [Sent (signup_config new_user),
                                  Toast ToastError (JStr ''Password too short'')]\<rparr>) \<and>
   signup empty_list_server new_user anonymous_client =
     (Inr (SignupFailure (JStr msg_bad_format) (Some 422)),
      anonymous_client\<lparr>trace := [Sent (signup_config new_user),
                                  Toast ToastError (JStr msg_bad_format)]\<rparr>) \<and>
   signup plain_errors_server new_user anonymous_client =
     (Inr (SignupFailure (JStr msg_bad_format) (Some 422)),
      anonymous_client\<lparr>trace := [Sent (signup_config new_user),
                                  Toast ToastError (JStr msg_bad_format)]\<rparr>)"
proof -
  let ?first = "JArr [JObj [(''msg'', JStr ''Password too short'')],
                      JObj [(''msg'', JStr ''Password needs a digit'')]]"
  let ?rest = "[(''email'', JArr [JObj [(''msg'', JStr ''Invalid email'')]])]"
  let ?r = "\<lparr>status = 422, data = JObj [(''detail'', JObj ((''password'', ?first) # ?rest))]\<rparr>"
  let ?q = "\<lparr>status = 422,
             data = JObj [(''detail'',
                      JObj ((''email'', JArr []) #
                            [(''password'', JArr [JObj [(''msg'', JStr ''Password too short'')]])]))]\<rparr>"
  let ?p = "\<lparr>status = 422,
             data = JObj [(''detail'', JObj ((''email'', JArr [JStr ''Invalid email'']) # []))]\<rparr>"
  have sreq: "signup_request anonymous_client new_user = signup_config new_user"
    by (simp add: signup_request_def request_interceptor_def anonymous_client_def)
  have empty: "trace anonymous_client = []"
    by (simp add: anonymous_client_def)
  have net: "validation_server (signup_request anonymous_client new_user) = Answer ?r"
    by (simp add: validation_server_def)
  have net': "empty_list_server (signup_request anonymous_client new_user) = Answer ?q"
    by (simp add: empty_list_server_def)
  have net'': "plain_errors_server (signup_request anonymous_client new_user) = Answer ?p"
    by (simp add: plain_errors_server_def)
  have msg: "?first = JArr (JObj [(''msg'', JStr ''Password too short'')] #
                            [JObj [(''msg'', JStr ''Password needs a digit'')]]) \<and>
      get_prop (JObj [(''msg'', JStr ''Password too short'')]) ''msg'' = Some (JStr ''Password too short'') \<and>
      truthy (Some (JStr ''Password too short''))"
    by simp
  have none: "JArr [] = JArr [] \<or>
      (\<exists>err errs. JArr [] = JArr (err # errs) \<and> err \<noteq> JNull \<and> \<not> truthy (get_prop err ''msg''))"
    by simp
  have plain: "JArr [JStr ''Invalid email''] = JArr [] \<or>
      (\<exists>err errs. JArr [JStr ''Invalid email''] = JArr (err # errs) \<and> err \<noteq> JNull \<and>
         \<not> truthy (get_prop err ''msg''))"
    by simp
  note a = signup_validation_message [of validation_server anonymous_client new_user ?r,
      OF net, THEN conjunct1, rule_format, OF _ _ msg]
  note b = signup_validation_message [of empty_list_server anonymous_client new_user ?q,
      OF net', THEN conjunct2, THEN mp, OF _ _ none]
  note c = signup_validation_message [of plain_errors_server anonymous_client new_user ?p,
      OF net'', THEN conjunct2, THEN mp, OF _ _ plain]
  have one: "signup validation_server new_user anonymous_client =
     (Inr (SignupFailure (JStr ''Password too short'') (Some 422)),
      anonymous_client\<lparr>trace := [Sent (signup_config new_user),
                                  Toast ToastError (JStr ''Password too short'')]\<rparr>)"
    using a by (simp add: sreq empty)
  have two: "signup empty_list_server new_user anonymous_client =
     (Inr (SignupFailure (JStr msg_bad_format) (Some 422)),
      anonymous_client\<lparr>trace := [Sent (signup_config new_user),
                                  Toast ToastError (JStr msg_bad_format)]\<rparr>)"
    using b by (simp add: sreq empty)
  have three: "signup plain_errors_server new_user anonymous_client =
     (Inr (SignupFailure (JStr msg_bad_format) (Some 422)),
      anonymous_client\<lparr>trace := [Sent (signup_config new_user),
                                  Toast ToastError (JStr msg_bad_format)]\<rparr>)"
    using c by (simp add: sreq empty)
  from one two three show ?thesis by simp
qed

text \<open>
  Claim C8 as it was stated fails: for each of three 422 bodies that map fields to error
  lists the failure message is the generic one. In the first the list of the first field
  is empty and the second field has an error with a \<open>msg\<close>; in the second the errors
  are plain strings; in the third the \<open>msg\<close> of the first error is empty.
\<close>

theorem signup_validation_generic_counterexample:
  "fst (signup empty_list_server new_user anonymous_client) =
     Inr (SignupFailure (JStr msg_bad_format) (Some 422)) \<and>
   fst (signup plain_errors_server new_user anonymous_client) =
     Inr (SignupFailure (JStr msg_bad_format) (Some 422)) \<and>
   fst (signup empty_msg_server new_user anonymous_client) =
     Inr (SignupFailure (JStr msg_bad_format) (Some 422)) \<and>
   msg_bad_format \<noteq> ''Password too short'' \<and> msg_bad_format \<noteq> ''Invalid email'' \<and>
   msg_bad_format \<noteq> []"
  by (simp add: signup_def authAPI_signup_request api_request_def request_interceptor_def
      response_rejected_def err_status_def signup_catch_def signup_fail_def opt_chain_def
      or_else_def empty_list_server_def plain_errors_server_def empty_msg_server_def
      msg_bad_format_def anonymous_client_def effect_defs)

section \<open>Several unauthorized answers\<close>

lemma reject_all_Cons:
  "reject_all (e # es) s = reject_all es (snd (response_rejected e s))"
  by (simp add: reject_all_def)

lemma rejected_401:
  "err_status e = Some 401 \<Longrightarrow>
   snd (response_rejected e s) =
     s\<lparr>access_token := None, href := ''/login'', trace := trace s @ [RemoveItem, Navigate ''/login'']\<rparr>"
  by (simp add: response_rejected_def effect_defs)

lemma reject_all_unauthorized:
  assumes "\<forall>e\<in>set es. err_status e = Some 401"
  shows "count_list (trace (reject_all es s)) RemoveItem = count_list (trace s) RemoveItem + length es \<and>
         count_list (trace (reject_all es s)) (Navigate ''/login'') =
           count_list (trace s) (Navigate ''/login'') + length es \<and>
         user (reject_all es s) = user s \<and> loading (reject_all es s) = loading s \<and>
         (es \<noteq> [] \<longrightarrow> access_token (reject_all es s) = None \<and> href (reject_all es s) = ''/login'')"
  using assms
proof (induction es arbitrary: s)
  case Nil
  show ?case by (simp add: reject_all_def)
next
  case (Cons e es)
  then have e: "err_status e = Some 401" and rest: "\<forall>x\<in>set es. err_status x = Some 401"
    by simp_all
  let ?s1 = "s\<lparr>access_token := None, href := ''/login'', trace := trace s @ [RemoveItem, Navigate ''/login'']\<rparr>"
  have step: "reject_all (e # es) s = reject_all es ?s1"
    by (simp add: reject_all_Cons rejected_401 [OF e])
  have base: "reject_all [] ?s1 = ?s1"
    by (simp add: reject_all_def)
  from Cons.IH [OF rest, of ?s1] show ?case
    unfolding step by (cases "es = []") (simp_all add: base)
qed

lemma send_all:
  "fold (\<lambda>r s'. emit (Sent r) s') rs s = s\<lparr>trace := trace s @ map Sent rs\<rparr>"
  by (induction rs arbitrary: s) (simp_all add: emit_def)

lemma sending_counts:
  "count_list (map (Sent \<circ> f) xs) RemoveItem = 0"
  "count_list (map (Sent \<circ> f) xs) (Navigate u) = 0"
  "requests (map (Sent \<circ> f) xs) = map f xs"
  by (induction xs) simp_all

lemma settle_unauthorized:
  assumes "\<forall>r\<in>set rs. \<exists>a. net r = Answer a \<and> status a = 401"
  shows "fold (\<lambda>r s'. snd (settle (net r) s')) rs s =
           reject_all (map (\<lambda>r. case net r of Answer a \<Rightarrow> HttpError a | NoAnswer \<Rightarrow> NetworkError) rs) s"
  using assms
proof (induction rs arbitrary: s)
  case Nil
  show ?case by (simp add: reject_all_def)
next
  case (Cons r rs)
  then obtain a where a: "net r = Answer a" "status a = 401" by auto
  from Cons have rest: "\<forall>x\<in>set rs. \<exists>a. net x = Answer a \<and> status a = 401" by simp
  have "snd (settle (net r) s) = snd (response_rejected (HttpError a) s)"
    using a by (simp add: settle_def)
  with Cons.IH [OF rest] a show ?case
    by (simp add: reject_all_Cons)
qed

lemma reject_all_silent:
  assumes "\<forall>e\<in>set es. err_status e = Some 401"
  shows "requests (trace (reject_all es s)) = requests (trace s)"
  using assms
proof (induction es arbitrary: s)
  case Nil
  show ?case by (simp add: reject_all_def)
next
  case (Cons e es)
  then have e: "err_status e = Some 401" and rest: "\<forall>x\<in>set es. err_status x = Some 401"
    by simp_all
  from Cons.IH [OF rest] show ?case
    by (simp add: reject_all_Cons rejected_401 [OF e] requests_append)
qed

lemma concurrent_single:
  "concurrent_calls net [c] s = snd (api_request net c s)"
  by (simp add: concurrent_calls_def api_request_def settle_def Let_def split: reply.splits)

text \<open>
  Claim C5, as amended. Calls on the axios instance of \<open>api.js\<close> end in its response
  interceptor, which reacts to every 401: when \<open>k\<close> such calls are in flight together
  and each is answered with status 401, the token is removed \<open>k\<close> times and the
  location is set to \<open>/login\<close> \<open>k\<close> times, once per failing call. After the first of
  them the store is empty and the location is \<open>/login\<close>, and the later ones leave both,
  the cached identity and the loading flag as they are. One call in flight alone is
  \<open>api_request\<close>.
\<close>

theorem unauthorized_reaction_per_call:
  assumes "\<forall>c\<in>set cs. \<exists>a. net (request_interceptor s c) = Answer a \<and> status a = 401"
  shows "count_list (trace (concurrent_calls net cs s)) RemoveItem =
           count_list (trace s) RemoveItem + length cs \<and>
         count_list (trace (concurrent_calls net cs s)) (Navigate ''/login'') =
           count_list (trace s) (Navigate ''/login'') + length cs \<and>
         requests (trace (concurrent_calls net cs s)) =
           requests (trace s) @ map (request_interceptor s) cs \<and>
         user (concurrent_calls net cs s) = user s \<and>
         loading (concurrent_calls net cs s) = loading s \<and>
         (cs \<noteq> [] \<longrightarrow>
            access_token (concurrent_calls net cs s) = None \<and>
            href (concurrent_calls net cs s) = ''/login'' \<and>
            access_token (concurrent_calls net cs s) = access_token (snd (api_request net (hd cs) s)) \<and>
            href (concurrent_calls net cs s) = href (snd (api_request net (hd cs) s))) \<and>
         (\<forall>c. concurrent_calls net [c] s = snd (api_request net c s))"
proof -
  let ?sent = "map (request_interceptor s) cs"
  let ?err = "\<lambda>r. case net r of Answer a \<Rightarrow> HttpError a | NoAnswer \<Rightarrow> NetworkError"
  let ?s1 = "s\<lparr>trace := trace s @ map Sent ?sent\<rparr>"
  from assms have answered: "\<forall>r\<in>set ?sent. \<exists>a. net r = Answer a \<and> status a = 401"
    by auto
  then have errs: "\<forall>e\<in>set (map ?err ?sent). err_status e = Some 401"
    by (auto simp: err_status_def)
  have run: "concurrent_calls net cs s = reject_all (map ?err ?sent) ?s1"
    by (simp add: concurrent_calls_def Let_def send_all settle_unauthorized [OF answered])
  note all = reject_all_unauthorized [OF errs, of ?s1] reject_all_silent [OF errs, of ?s1]
  have first: "access_token (snd (api_request net (hd cs) s)) = None \<and>
      href (snd (api_request net (hd cs) s)) = ''/login''" if "cs \<noteq> []"
  proof -
    from that assms obtain a where "net (request_interceptor s (hd cs)) = Answer a" "status a = 401"
      by (cases cs) auto
    then show ?thesis
      by (simp add: api_request_def Let_def response_rejected_def err_status_def effect_defs)
  qed
  from all first show ?thesis
    by (simp add: run sending_counts requests_append concurrent_single)
qed

theorem unauthorized_reaction_per_call_witness:
  "count_list (trace (concurrent_calls locked_server
      [me_config, login_config ''a'' ''b'', me_config] example_client)) RemoveItem = 3 \<and>
   count_list (trace (concurrent_calls locked_server
      [me_config, login_config ''a'' ''b'', me_config] example_client)) (Navigate ''/login'') = 3 \<and>
   access_token (concurrent_calls locked_server
      [me_config, login_config ''a'' ''b'', me_config] example_client) = None \<and>
   href (concurrent_calls locked_server
      [me_config, login_config ''a'' ''b'', me_config] example_client) = ''/login''"
proof -
  have h: "\<forall>c\<in>set [me_config, login_config ''a'' ''b'', me_config].
      \<exists>a. locked_server (request_interceptor example_client c) = Answer a \<and> status a = 401"
    by (simp add: locked_server_def)
  have empty: "trace example_client = []"
    by (simp add: example_client_def)
  from unauthorized_reaction_per_call [OF h]
  show ?thesis by (simp add: empty)
qed

text \<open>
  Claim C5 as it was stated fails: two calls that are both answered with 401 remove the
  token twice and set the location twice, in the interceptor taken alone and in two calls
  on the axios instance that are in flight together.
\<close>

theorem unauthorized_twice_counterexample:
  "count_list (trace (reject_all [unauthorized, unauthorized] example_client)) RemoveItem = 2 \<and>
   count_list (trace (reject_all [unauthorized, unauthorized] example_client)) (Navigate ''/login'') = 2 \<and>
   count_list (trace (concurrent_calls locked_server [me_config, login_config ''a'' ''b'']
      example_client)) RemoveItem = 2 \<and>
   count_list (trace (concurrent_calls locked_server [me_config, login_config ''a'' ''b'']
      example_client)) (Navigate ''/login'') = 2"
  by (simp add: reject_all_def response_rejected_def err_status_def unauthorized_def effect_defs
      example_client_def concurrent_calls_def settle_def locked_server_def Let_def)

section \<open>The bearer header\<close>

lemma map_of_set_header_same: "map_of (set_header k v hs) k = Some v"
  by (induction hs) auto

lemma map_of_set_header_other: "k' \<noteq> k \<Longrightarrow> map_of (set_header k v hs) k' = map_of hs k'"
  by (induction hs) auto

text \<open>
  Claim C6, as amended. Every call made on the axios instance of \<open>api.js\<close> leaves the
  client as the request interceptor made it. Its \<open>Authorization\<close> header is
  \<open>Bearer\<close> followed by the token exactly when the store holds a token that is not
  empty; otherwise the interceptor adds no such header, and the endpoints of \<open>api.js\<close>
  give none of their own. The interceptor changes nothing else of the request.
\<close>

theorem bearer_header_on_api_requests:
  "header ''Authorization'' (request_interceptor s config) =
     (case access_token s of
        None \<Rightarrow> header ''Authorization'' config
      | Some t \<Rightarrow> if t \<noteq> [] then Some (''Bearer '' @ t) else header ''Authorization'' config) \<and>
   (\<forall>k. k \<noteq> ''Authorization'' \<longrightarrow> header k (request_interceptor s config) = header k config) \<and>
   verb (request_interceptor s config) = verb config \<and>
   url (request_interceptor s config) = url config \<and>
   body (request_interceptor s config) = body config \<and>
   requests (trace (snd (api_request net config s))) =
     requests (trace s) @ [request_interceptor s config] \<and>
   header ''Authorization'' (login_config em pw) = None \<and>
   header ''Authorization'' (signup_config ud) = None \<and>
   header ''Authorization'' me_config = None \<and>
   header ''Authorization'' (updateProfile_config d) = None"
proof -
  obtain res s1 where call: "api_request net config s = (res, s1)"
    by (cases "api_request net config s")
  from api_request_effects(3) [OF call]
  have "requests (trace (snd (api_request net config s))) =
      requests (trace s) @ [request_interceptor s config]"
    by (simp add: call)
  then show ?thesis
    by (simp add: header_def request_interceptor_def map_of_set_header_same
        map_of_set_header_other login_config_def signup_config_def me_config_def
        updateProfile_config_def split: option.splits)
qed

theorem bearer_header_on_api_requests_witness:
  "header ''Authorization'' (request_interceptor example_client me_config) = Some ''Bearer abc'' \<and>
   header ''Authorization'' (request_interceptor anonymous_client me_config) = None \<and>
   header ''Content-Type'' (request_interceptor example_client (login_config ''a'' ''b'')) =
     Some ''application/x-www-form-urlencoded''"
proof -
  note a = bearer_header_on_api_requests [of example_client me_config offline "''a''" "''b''" new_user JNull]
  note b = bearer_header_on_api_requests [of anonymous_client me_config offline "''a''" "''b''" new_user JNull]
  note c = bearer_header_on_api_requests [of example_client "login_config ''a'' ''b''" offline "''a''" "''b''"
      new_user JNull, THEN conjunct2, THEN conjunct1, rule_format, of "''Content-Type''"]
  have ct: "header ''Content-Type'' (login_config ''a'' ''b'') = Some ''application/x-www-form-urlencoded''"
    by (simp add: header_def login_config_def)
  show ?thesis
    using a [THEN conjunct1] b [THEN conjunct1] b [THEN conjunct2, THEN conjunct2, THEN conjunct2,
      THEN conjunct2, THEN conjunct2, THEN conjunct2, THEN conjunct2, THEN conjunct2, THEN conjunct1] c ct
    by (simp add: example_client_def anonymous_client_def)
qed

text \<open>
  Claim C6 as it was stated fails: the admin service builds its own request, outside the
  interceptor, and with an empty store that request carries an \<open>Authorization\<close> header.
\<close>

theorem admin_request_header_counterexample:
  "access_token anonymous_client = None \<and>
   map (header ''Authorization'')
     (requests (trace (snd (makeRequest offline ''/dashboard/stats'' no_options anonymous_client)))) =
     [Some ''Bearer null'']"
  by (simp add: makeRequest_def makeRequest_config_def merge_headers_def header_def offline_def
      no_options_def anonymous_client_def effect_defs)

end
